theory Spec2Isabelle
  imports Complex_Main
begin

section \<open>Python primitives used by both scripts\<close>

text \<open>
  Python floats are modelled as exact reals: order, addition, subtraction and the two
  multiplications by constants are read without rounding, and NaN and the infinities
  are not represented. Strings are character lists.
\<close>

text \<open>\<^verbatim>\<open>str.split(sep)\<close> with a one-character separator: every occurrence
  of the separator cuts, so the result has one part more than there are separators and
  is never empty (the \<open>[]\<close> branch of the \<open>case\<close> is never taken).\<close>

fun str_split :: "char \<Rightarrow> string \<Rightarrow> string list" where
  "str_split sep [] = [[]]"
| "str_split sep (c # cs) =
     (if c = sep then [] # str_split sep cs
      else (case str_split sep cs of
              [] \<Rightarrow> [[c]]
            | p # ps \<Rightarrow> (c # p) # ps))"

text \<open>\<^verbatim>\<open>s.startswith(p)\<close>.\<close>

definition startswith :: "string \<Rightarrow> string \<Rightarrow> bool" where
  "startswith s p = (take (length p) s = p)"

text \<open>The only fault an arithmetic expression of the scripts can raise.\<close>

datatype error = ZeroDivisionError

text \<open>Python's \<^verbatim>\<open>a / b\<close> on floats raises when the divisor is zero.\<close>

definition truediv :: "real \<Rightarrow> real \<Rightarrow> error + real" where
  "truediv a b = (if b = 0 then Inl ZeroDivisionError else Inr (a / b))"

section \<open>The enhanced script: alternative generator\<close>

text \<open>The category strings of the source are exactly these four literals; they are
  also the four keys of \<^verbatim>\<open>total_potential_savings\<close>.\<close>

datatype category = graviton | amd | intel | downsize

type_synonym alternative = "string \<times> string \<times> category"

text \<open>The literal dictionary \<^verbatim>\<open>downsize_map\<close>.\<close>

definition downsize_map :: "string \<rightharpoonup> string" where
  "downsize_map = map_of
     [(''xlarge'', ''large''),
      (''large'', ''medium''),
      (''medium'', ''small''),
      (''small'', ''micro''),
      (''2xlarge'', ''xlarge''),
      (''4xlarge'', ''2xlarge'')]"

text \<open>The \<^verbatim>\<open>if\<close>/\<^verbatim>\<open>elif\<close> chain over the family, in the
  source's order.\<close>

definition family_alternatives :: "string \<Rightarrow> string \<Rightarrow> alternative list" where
  "family_alternatives family sz =
     (if startswith family ''t3'' then
        [(''t4g.'' @ sz, ''Graviton2 ARM - 20% cheaper'', graviton),
         (''t3a.'' @ sz, ''AMD - 10% cheaper'', amd)]
      else if startswith family ''t2'' then
        [(''t3.'' @ sz, ''Newer generation'', intel),
         (''t4g.'' @ sz, ''Graviton2 ARM - 20% cheaper'', graviton)]
      else if family = ''m5'' then
        [(''m7g.'' @ sz, ''Graviton3 - Latest gen'', graviton),
         (''m6a.'' @ sz, ''AMD - 10% cheaper'', amd),
         (''m6i.'' @ sz, ''Intel 6th gen'', intel)]
      else if family = ''m6i'' then
        [(''m7g.'' @ sz, ''Graviton3 - Better price/perf'', graviton),
         (''m6a.'' @ sz, ''AMD - 10% cheaper'', amd)]
      else if family = ''m4'' then
        [(''m7g.'' @ sz, ''Graviton3 - Latest'', graviton),
         (''m6i.'' @ sz, ''Intel 6th gen'', intel),
         (''m5.'' @ sz, ''Intel 5th gen'', intel)]
      else if family = ''c5'' then
        [(''c7g.'' @ sz, ''Graviton3 - Best price/perf'', graviton),
         (''c6a.'' @ sz, ''AMD'', amd),
         (''c6i.'' @ sz, ''Intel 6th gen'', intel)]
      else if family = ''c4'' then
        [(''c7g.'' @ sz, ''Graviton3'', graviton),
         (''c6i.'' @ sz, ''Intel 6th gen'', intel)]
      else if family = ''r5'' then
        [(''r7g.'' @ sz, ''Graviton3'', graviton),
         (''r6a.'' @ sz, ''AMD'', amd),
         (''r6i.'' @ sz, ''Intel 6th gen'', intel)]
      else if family = ''r4'' then
        [(''r7g.'' @ sz, ''Graviton3'', graviton),
         (''r6i.'' @ sz, ''Intel 6th gen'', intel)]
      else [])"

text \<open>The downsizing block. The parameter \<open>fmt\<close> stands for Python's float
  formatting \<^verbatim>\<open>format(x, '.1f')\<close>, which is not code of the repository.\<close>

definition downsize_alternatives ::
  "(real \<Rightarrow> string) \<Rightarrow> string \<Rightarrow> string \<Rightarrow> real option \<Rightarrow> alternative list" where
  "downsize_alternatives fmt family sz cpu_avg =
     (case cpu_avg of
        None \<Rightarrow> []
      | Some a \<Rightarrow>
          if a < 20 then
            (case downsize_map sz of
               None \<Rightarrow> []
             | Some smaller_size \<Rightarrow>
                 [(family @ ''.'' @ smaller_size,
                   ''Downsize (low CPU: '' @ fmt a @ ''%)'', downsize)])
          else [])"

definition get_alternative_instances ::
  "(real \<Rightarrow> string) \<Rightarrow> string \<Rightarrow> real option \<Rightarrow> alternative list" where
  "get_alternative_instances fmt current_type cpu_avg =
     (case str_split (CHR ''.'') current_type of
        [family, sz] \<Rightarrow>
          family_alternatives family sz @ downsize_alternatives fmt family sz cpu_avg
      | _ \<Rightarrow> [])"

section \<open>The enhanced script: external collaborators and the optimizer object\<close>

text \<open>
  What \<^verbatim>\<open>self.pricing.get_products\<close> and the parsing of its answer inside the
  \<^verbatim>\<open>try\<close> block can do. \<open>ProductsException e\<close> is an exception raised by the call
  itself; otherwise the answer carries \<^verbatim>\<open>response['PriceList']\<close>, and each of its
  items either parses down to the float \<^verbatim>\<open>pricePerUnit['USD']\<close> or makes one of
  \<^verbatim>\<open>json.loads\<close>, the key and index lookups or \<^verbatim>\<open>float\<close> raise
  (\<open>Unparseable e\<close>, with the exception's text).
\<close>

datatype price_item = Unparseable string | OnDemandUSD real

datatype products_response = ProductsException string | PriceList "price_item list"

text \<open>
  What \<^verbatim>\<open>self.cloudwatch.get_metric_statistics\<close> can do: raise, or answer with
  \<^verbatim>\<open>Datapoints\<close>, each a pair of its \<^verbatim>\<open>Average\<close> and its
  \<^verbatim>\<open>Maximum\<close>.
\<close>

datatype metrics_response = MetricsException string | Datapoints "(real \<times> real) list"

text \<open>
  The two services. Each answer may depend on the requests made before it (the first
  argument), so that a service may answer the same request differently on another day;
  the time window of the metrics request is part of that history and not a parameter.
\<close>

record aws =
  get_products :: "(string \<times> string) list \<Rightarrow> string \<Rightarrow> string \<Rightarrow> products_response"
  get_metric_statistics :: "string list \<Rightarrow> string \<Rightarrow> metrics_response"

text \<open>
  The object \<^verbatim>\<open>self\<close> (its region and its price cache) together with what the
  run does to the outside: the requests sent to the two services and the warning lines
  printed, each in order.
\<close>

record optimizer =
  region :: string
  pricing_cache :: "string \<rightharpoonup> real"
  pricing_requests :: "(string \<times> string) list"
  metrics_requests :: "string list"
  warnings :: "string list"

text \<open>The literal dictionary \<^verbatim>\<open>region_map\<close>.\<close>

definition region_map :: "string \<rightharpoonup> string" where
  "region_map = map_of
     [(''us-east-1'', ''US East (N. Virginia)''),
      (''us-east-2'', ''US East (Ohio)''),
      (''us-west-1'', ''US West (N. California)''),
      (''us-west-2'', ''US West (Oregon)''),
      (''eu-west-1'', ''EU (Ireland)''),
      (''eu-central-1'', ''EU (Frankfurt)''),
      (''ap-southeast-1'', ''Asia Pacific (Singapore)''),
      (''ap-northeast-1'', ''Asia Pacific (Tokyo)'')]"

text \<open>\<^verbatim>\<open>cache_key = f"{instance_type}_{region}"\<close>.\<close>

definition cache_key :: "string \<Rightarrow> string \<Rightarrow> string" where
  "cache_key instance_type rgn = instance_type @ ''_'' @ rgn"

text \<open>\<^verbatim>\<open>region_map.get(region, region)\<close>.\<close>

definition region_name :: "string \<Rightarrow> string" where
  "region_name rgn = (case region_map rgn of None \<Rightarrow> rgn | Some n \<Rightarrow> n)"

definition price_warning :: "string \<Rightarrow> string \<Rightarrow> string" where
  "price_warning instance_type e =
     ''Warning: Could not fetch price for '' @ instance_type @ '': '' @ e"

text \<open>\<^verbatim>\<open>if region is None: region = self.region\<close>.\<close>

definition requested_region :: "optimizer \<Rightarrow> string option \<Rightarrow> string" where
  "requested_region self region_arg =
     (case region_arg of None \<Rightarrow> region self | Some r \<Rightarrow> r)"

definition get_instance_price ::
  "aws \<Rightarrow> string \<Rightarrow> string option \<Rightarrow> optimizer \<Rightarrow> real \<times> optimizer" where
  "get_instance_price env instance_type region_arg self =
     (let rgn = requested_region self region_arg;
          key = cache_key instance_type rgn
      in case pricing_cache self key of
           Some cached \<Rightarrow> (cached, self)
         | None \<Rightarrow>
             (let response = get_products env (pricing_requests self) instance_type (region_name rgn);
                  self1 = self\<lparr>pricing_requests :=
                            pricing_requests self @ [(instance_type, region_name rgn)]\<rparr>
              in case response of
                   ProductsException e \<Rightarrow>
                     (0, self1\<lparr>warnings := warnings self1 @ [price_warning instance_type e]\<rparr>)
                 | PriceList [] \<Rightarrow> (0, self1)
                 | PriceList (Unparseable e # _) \<Rightarrow>
                     (0, self1\<lparr>warnings := warnings self1 @ [price_warning instance_type e]\<rparr>)
                 | PriceList (OnDemandUSD price_per_hour # _) \<Rightarrow>
                     (price_per_hour,
                      self1\<lparr>pricing_cache := (pricing_cache self1)(key \<mapsto> price_per_hour)\<rparr>)))"

text \<open>The dictionary returned by \<^verbatim>\<open>get_instance_metrics\<close>.\<close>

record metrics =
  cpu_avg :: "real option"
  cpu_max :: "real option"
  has_data :: bool

definition metrics_warning :: "string \<Rightarrow> string \<Rightarrow> string" where
  "metrics_warning iid e = ''Warning: Could not fetch metrics for '' @ iid @ '': '' @ e"

text \<open>
  In the branch with datapoints the divisor \<^verbatim>\<open>len(...)\<close> is positive, so the
  division cannot raise there; \<^verbatim>\<open>max\<close> runs over the datapoints from the first.
\<close>

definition get_instance_metrics :: "aws \<Rightarrow> string \<Rightarrow> optimizer \<Rightarrow> metrics \<times> optimizer" where
  "get_instance_metrics env iid self =
     (let response = get_metric_statistics env (metrics_requests self) iid;
          self1 = self\<lparr>metrics_requests := metrics_requests self @ [iid]\<rparr>
      in case response of
           MetricsException e \<Rightarrow>
             (\<lparr>cpu_avg = None, cpu_max = None, has_data = False\<rparr>,
              self1\<lparr>warnings := warnings self1 @ [metrics_warning iid e]\<rparr>)
         | Datapoints [] \<Rightarrow>
             (\<lparr>cpu_avg = None, cpu_max = None, has_data = False\<rparr>, self1)
         | Datapoints (d # ds) \<Rightarrow>
             (\<lparr>cpu_avg = Some (sum_list (map fst (d # ds)) / real (length (d # ds))),
               cpu_max = Some (fold max (map snd ds) (snd d)),
               has_data = True\<rparr>, self1))"

section \<open>Savings arithmetic shared by both scripts\<close>

text \<open>
  \<^verbatim>\<open>(savings_per_hour / current_price * 100) if current_price > 0 else 0\<close>,
  the same expression in both scripts.
\<close>

definition savings_percent :: "real \<Rightarrow> real \<Rightarrow> error + real" where
  "savings_percent savings_per_hour current_price =
     (if current_price > 0 then
        (case truediv savings_per_hour current_price of
           Inl e \<Rightarrow> Inl e
         | Inr q \<Rightarrow> Inr (q * 100))
      else Inr 0)"

text \<open>
  The values computed for one alternative whose price is known; the scripts print them
  in one of three layouts, by the sign of \<^verbatim>\<open>savings_per_hour\<close>.
\<close>

record savings_entry =
  alt_type :: string
  description :: string
  alt_price :: real
  savings_per_hour :: real
  savings_per_month :: real
  percent :: real

definition compute_savings ::
  "real \<Rightarrow> string \<Rightarrow> string \<Rightarrow> real \<Rightarrow> error + savings_entry" where
  "compute_savings current_price atype descr aprice =
     (let per_hour = current_price - aprice;
          per_month = per_hour * 730
      in case savings_percent per_hour current_price of
           Inl e \<Rightarrow> Inl e
         | Inr pct \<Rightarrow>
             Inr \<lparr>alt_type = atype, description = descr, alt_price = aprice,
                  savings_per_hour = per_hour, savings_per_month = per_month,
                  percent = pct\<rparr>)"

section \<open>The enhanced script: the analysis loop\<close>

text \<open>One instance of \<^verbatim>\<open>describe_instances\<close>, with the keys the loop reads for
  its decisions (the \<^verbatim>\<open>Name\<close> tag is only printed).\<close>

record ec2_instance =
  InstanceId :: string
  InstanceType :: string
  StateName :: string

text \<open>
  \<^verbatim>\<open>best_savings_by_type = defaultdict(float)\<close>: reading a missing key stores
  \<open>0\<close> under it first. The statement modelled is
  \<^verbatim>\<open>if savings_per_month > best[category]: best[category] = savings_per_month\<close>.
\<close>

definition track_best :: "(category \<rightharpoonup> real) \<Rightarrow> category \<Rightarrow> real \<Rightarrow> (category \<rightharpoonup> real)" where
  "track_best best cat per_month =
     (let best1 = (case best cat of None \<Rightarrow> best(cat \<mapsto> 0) | Some _ \<Rightarrow> best);
          current = (case best1 cat of None \<Rightarrow> 0 | Some v \<Rightarrow> v)
      in if per_month > current then best1(cat \<mapsto> per_month) else best1)"

text \<open>
  The loop over the alternatives of one instance. It threads the optimizer (every price
  lookup may fill the cache), the best savings per category and the entries computed so
  far, each with its category.
\<close>

fun evaluate_alternatives ::
  "aws \<Rightarrow> real \<Rightarrow> alternative list \<Rightarrow>
   optimizer \<times> (category \<rightharpoonup> real) \<times> (category \<times> savings_entry) list \<Rightarrow>
   error + optimizer \<times> (category \<rightharpoonup> real) \<times> (category \<times> savings_entry) list" where
  "evaluate_alternatives env current_price [] st = Inr st"
| "evaluate_alternatives env current_price ((atype, descr, cat) # alts) (self, best, entries) =
     (case get_instance_price env atype (Some (region self)) self of
        (aprice, self1) \<Rightarrow>
          if aprice = 0 then evaluate_alternatives env current_price alts (self1, best, entries)
          else
            (case compute_savings current_price atype descr aprice of
               Inl e \<Rightarrow> Inl e
             | Inr entry \<Rightarrow>
                 evaluate_alternatives env current_price alts
                   (self1, track_best best cat (savings_per_month entry),
                    entries @ [(cat, entry)])))"

text \<open>Both scripts count the analysed instances and add up their monthly cost. The
  enhanced one keeps a total per category besides; \<open>report\<close> holds, per analysed
  instance, its id with the entries printed under it.\<close>

record counters =
  instances_analyzed :: nat
  total_current_cost :: real

record summary = counters +
  total_potential_savings :: "category \<Rightarrow> real"
  report :: "(string \<times> (category \<times> savings_entry) list) list"

text \<open>\<^verbatim>\<open>for category, savings in best.items(): total[category] += savings\<close>; the
  keys are distinct, so the order of the items does not matter.\<close>

definition add_to_totals :: "(category \<rightharpoonup> real) \<Rightarrow> (category \<Rightarrow> real) \<Rightarrow> (category \<Rightarrow> real)" where
  "add_to_totals best totals =
     (\<lambda>cat. case best cat of None \<Rightarrow> totals cat | Some savings \<Rightarrow> totals cat + savings)"

text \<open>The body of the loop over the instances.\<close>

definition analyze_instance ::
  "aws \<Rightarrow> (real \<Rightarrow> string) \<Rightarrow> bool \<Rightarrow> ec2_instance \<Rightarrow> optimizer \<times> summary \<Rightarrow>
   error + optimizer \<times> summary" where
  "analyze_instance env fmt check_metrics inst st =
     (case st of (self, acc) \<Rightarrow>
        if StateName inst = ''terminated'' then Inr (self, acc)
        else
          (case get_instance_price env (InstanceType inst) (Some (region self)) self of
             (current_price, self1) \<Rightarrow>
               if current_price = 0 then Inr (self1, acc)
               else
                 (let current_monthly = current_price * 730;
                      (m, self2) =
                        (if check_metrics \<and> StateName inst = ''running''
                         then get_instance_metrics env (InstanceId inst) self1
                         else (\<lparr>cpu_avg = None, cpu_max = None, has_data = False\<rparr>, self1));
                      alternatives = get_alternative_instances fmt (InstanceType inst) (cpu_avg m)
                  in if alternatives = [] then Inr (self2, acc)
                     else
                       (case evaluate_alternatives env current_price alternatives
                               (self2, Map.empty, []) of
                          Inl e \<Rightarrow> Inl e
                        | Inr (self3, best, entries) \<Rightarrow>
                            Inr (self3,
                                 acc\<lparr>instances_analyzed := instances_analyzed acc + 1,
                                     total_current_cost := total_current_cost acc + current_monthly,
                                     total_potential_savings :=
                                       add_to_totals best (total_potential_savings acc),
                                     report := report acc @ [(InstanceId inst, entries)]\<rparr>)))))"

text \<open>The two nested iterations over \<^verbatim>\<open>response['Reservations']\<close> and the
  \<^verbatim>\<open>Instances\<close> of each.\<close>

fun analyze_reservation ::
  "aws \<Rightarrow> (real \<Rightarrow> string) \<Rightarrow> bool \<Rightarrow> ec2_instance list \<Rightarrow> optimizer \<times> summary \<Rightarrow>
   error + optimizer \<times> summary" where
  "analyze_reservation env fmt check_metrics [] st = Inr st"
| "analyze_reservation env fmt check_metrics (inst # insts) st =
     (case analyze_instance env fmt check_metrics inst st of
        Inl e \<Rightarrow> Inl e
      | Inr st1 \<Rightarrow> analyze_reservation env fmt check_metrics insts st1)"

fun analyze_reservations ::
  "aws \<Rightarrow> (real \<Rightarrow> string) \<Rightarrow> bool \<Rightarrow> ec2_instance list list \<Rightarrow> optimizer \<times> summary \<Rightarrow>
   error + optimizer \<times> summary" where
  "analyze_reservations env fmt check_metrics [] st = Inr st"
| "analyze_reservations env fmt check_metrics (reservation # rs) st =
     (case analyze_reservation env fmt check_metrics reservation st of
        Inl e \<Rightarrow> Inl e
      | Inr st1 \<Rightarrow> analyze_reservations env fmt check_metrics rs st1)"

text \<open>The counters before the loop.\<close>

definition initial_summary :: summary where
  "initial_summary =
     \<lparr>instances_analyzed = 0, total_current_cost = 0,
      total_potential_savings = (\<lambda>_. 0), report = []\<rparr>"

definition analyze_instances ::
  "aws \<Rightarrow> (real \<Rightarrow> string) \<Rightarrow> bool \<Rightarrow> ec2_instance list list \<Rightarrow> optimizer \<Rightarrow>
   error + optimizer \<times> summary" where
  "analyze_instances env fmt check_metrics reservations self =
     analyze_reservations env fmt check_metrics reservations (self, initial_summary)"

section \<open>The basic script\<close>

text \<open>The literal dictionary \<^verbatim>\<open>pricing_map\<close>; the \<^verbatim>\<open>region\<close>
  parameter of the function is never read.\<close>

definition pricing_map :: "string \<rightharpoonup> real" where
  "pricing_map = map_of
     [(''t3.nano'', 0.0052), (''t3.micro'', 0.0104), (''t3.small'', 0.0208),
      (''t3.medium'', 0.0416), (''t3.large'', 0.0832), (''t3.xlarge'', 0.1664),
      (''t3.2xlarge'', 0.3328),
      (''t3a.nano'', 0.0047), (''t3a.micro'', 0.0094), (''t3a.small'', 0.0188),
      (''t3a.medium'', 0.0376), (''t3a.large'', 0.0752), (''t3a.xlarge'', 0.1504),
      (''t3a.2xlarge'', 0.3008),
      (''t4g.nano'', 0.0042), (''t4g.micro'', 0.0084), (''t4g.small'', 0.0168),
      (''t4g.medium'', 0.0336), (''t4g.large'', 0.0672), (''t4g.xlarge'', 0.1344),
      (''t4g.2xlarge'', 0.2688),
      (''m5.large'', 0.096), (''m5.xlarge'', 0.192), (''m5.2xlarge'', 0.384),
      (''m6i.large'', 0.096), (''m6i.xlarge'', 0.192), (''m6i.2xlarge'', 0.384),
      (''m6a.large'', 0.0864), (''m6a.xlarge'', 0.1728), (''m6a.2xlarge'', 0.3456),
      (''m7g.medium'', 0.0408), (''m7g.large'', 0.0816), (''m7g.xlarge'', 0.1632)]"

definition get_instance_pricing_estimate :: "string \<Rightarrow> real" where
  "get_instance_pricing_estimate instance_type =
     (case pricing_map instance_type of None \<Rightarrow> 0 | Some p \<Rightarrow> p)"

definition t3_to_alternatives :: "string \<rightharpoonup> (string \<times> string) list" where
  "t3_to_alternatives = map_of
     [(''t3.nano'', [(''t4g.nano'', ''Graviton2 ARM''), (''t3a.nano'', ''AMD'')]),
      (''t3.micro'', [(''t4g.micro'', ''Graviton2 ARM''), (''t3a.micro'', ''AMD'')]),
      (''t3.small'', [(''t4g.small'', ''Graviton2 ARM''), (''t3a.small'', ''AMD'')]),
      (''t3.medium'', [(''t4g.medium'', ''Graviton2 ARM''), (''t3a.medium'', ''AMD'')]),
      (''t3.large'', [(''t4g.large'', ''Graviton2 ARM''), (''t3a.large'', ''AMD'')]),
      (''t3.xlarge'', [(''t4g.xlarge'', ''Graviton2 ARM''), (''t3a.xlarge'', ''AMD'')]),
      (''t3.2xlarge'', [(''t4g.2xlarge'', ''Graviton2 ARM''), (''t3a.2xlarge'', ''AMD'')])]"

definition m5_to_alternatives :: "string \<rightharpoonup> (string \<times> string) list" where
  "m5_to_alternatives = map_of
     [(''m5.large'',
         [(''m7g.large'', ''Graviton3''), (''m6a.large'', ''AMD''),
          (''m6i.large'', ''Intel 6th gen'')]),
      (''m5.xlarge'',
         [(''m7g.xlarge'', ''Graviton3''), (''m6a.xlarge'', ''AMD''),
          (''m6i.xlarge'', ''Intel 6th gen'')]),
      (''m5.2xlarge'',
         [(''m7g.2xlarge'', ''Graviton3''), (''m6a.2xlarge'', ''AMD''),
          (''m6i.2xlarge'', ''Intel 6th gen'')])]"

text \<open>The function \<^verbatim>\<open>get_alternative_instances\<close> of the basic script.\<close>

definition get_alternative_instances_basic :: "string \<Rightarrow> (string \<times> string) list" where
  "get_alternative_instances_basic current_type =
     (case t3_to_alternatives current_type of
        Some alts \<Rightarrow> alts
      | None \<Rightarrow>
          (case m5_to_alternatives current_type of
             Some alts \<Rightarrow> alts
           | None \<Rightarrow> []))"

text \<open>\<^verbatim>\<open>str.lower\<close> on the ASCII letters, all the descriptions of the table
  contain.\<close>

definition lower_char :: "char \<Rightarrow> char" where
  "lower_char c =
     (let n = (of_char c :: nat) in if 65 \<le> n \<and> n \<le> 90 then char_of (n + 32) else c)"

definition lower :: "string \<Rightarrow> string" where
  "lower s = map lower_char s"

text \<open>The substring test \<^verbatim>\<open>sub in s\<close>.\<close>

fun contains :: "string \<Rightarrow> string \<Rightarrow> bool" where
  "contains [] sub = (sub = [])"
| "contains (c # cs) sub = (startswith (c # cs) sub \<or> contains cs sub)"

definition is_graviton :: "string \<Rightarrow> bool" where
  "is_graviton descr = (contains (lower descr) ''graviton'' \<or> contains (lower descr) ''arm'')"

text \<open>The loop over the alternatives of one instance: the two best savings and the
  entries computed so far, each with its side (\<open>True\<close> for Graviton).\<close>

fun evaluate_alternatives_basic ::
  "real \<Rightarrow> (string \<times> string) list \<Rightarrow> real \<times> real \<times> (bool \<times> savings_entry) list \<Rightarrow>
   error + real \<times> real \<times> (bool \<times> savings_entry) list" where
  "evaluate_alternatives_basic current_price [] st = Inr st"
| "evaluate_alternatives_basic current_price ((atype, descr) # alts)
       (best_graviton_savings, best_non_graviton_savings, entries) =
     (let aprice = get_instance_pricing_estimate atype
      in if aprice = 0 then
           evaluate_alternatives_basic current_price alts
             (best_graviton_savings, best_non_graviton_savings, entries)
         else
           (case compute_savings current_price atype descr aprice of
              Inl e \<Rightarrow> Inl e
            | Inr entry \<Rightarrow>
                if is_graviton descr then
                  evaluate_alternatives_basic current_price alts
                    (if savings_per_month entry > best_graviton_savings
                     then savings_per_month entry else best_graviton_savings,
                     best_non_graviton_savings, entries @ [(True, entry)])
                else
                  evaluate_alternatives_basic current_price alts
                    (best_graviton_savings,
                     if savings_per_month entry > best_non_graviton_savings
                     then savings_per_month entry else best_non_graviton_savings,
                     entries @ [(False, entry)])))"

record main_totals = counters +
  total_graviton_savings :: real
  total_non_graviton_savings :: real
  recommendations :: "(string \<times> (bool \<times> savings_entry) list) list"

text \<open>The body of the loop over the instances in \<^verbatim>\<open>main\<close>.\<close>

definition main_instance :: "ec2_instance \<Rightarrow> main_totals \<Rightarrow> error + main_totals" where
  "main_instance inst acc =
     (let current_price = get_instance_pricing_estimate (InstanceType inst);
          current_monthly = current_price * 730;
          alternatives = get_alternative_instances_basic (InstanceType inst)
      in if alternatives = [] then Inr acc
         else
           (case evaluate_alternatives_basic current_price alternatives (0, 0, []) of
              Inl e \<Rightarrow> Inl e
            | Inr (best_graviton_savings, best_non_graviton_savings, entries) \<Rightarrow>
                Inr (acc\<lparr>instances_analyzed := instances_analyzed acc + 1,
                         total_current_cost := total_current_cost acc + current_monthly,
                         total_graviton_savings :=
                           total_graviton_savings acc + best_graviton_savings,
                         total_non_graviton_savings :=
                           total_non_graviton_savings acc + best_non_graviton_savings,
                         recommendations :=
                           recommendations acc @ [(InstanceId inst, entries)]\<rparr>)))"

fun main_reservation :: "ec2_instance list \<Rightarrow> main_totals \<Rightarrow> error + main_totals" where
  "main_reservation [] acc = Inr acc"
| "main_reservation (inst # insts) acc =
     (case main_instance inst acc of
        Inl e \<Rightarrow> Inl e
      | Inr acc1 \<Rightarrow> main_reservation insts acc1)"

fun main_reservations :: "ec2_instance list list \<Rightarrow> main_totals \<Rightarrow> error + main_totals" where
  "main_reservations [] acc = Inr acc"
| "main_reservations (reservation # rs) acc =
     (case main_reservation reservation acc of
        Inl e \<Rightarrow> Inl e
      | Inr acc1 \<Rightarrow> main_reservations rs acc1)"

definition initial_totals :: main_totals where
  "initial_totals =
     \<lparr>instances_analyzed = 0, total_current_cost = 0, total_graviton_savings = 0,
      total_non_graviton_savings = 0, recommendations = []\<rparr>"

definition main_loop :: "ec2_instance list list \<Rightarrow> error + main_totals" where
  "main_loop reservations = main_reservations reservations initial_totals"

section \<open>One-decimal formatting on exact values\<close>

text \<open>
  An instance for the parameter \<open>fmt\<close>: what \<^verbatim>\<open>format(x, '.1f')\<close> prints for
  a float whose exact value is \<open>x\<close>, rounding the tenths half to even and keeping the
  sign of a negative value that rounds to zero.
\<close>

definition digit_char :: "nat \<Rightarrow> char" where
  "digit_char d = char_of (48 + d)"

function str_nat :: "nat \<Rightarrow> string" where
  "str_nat n = (if n < 10 then [digit_char n] else str_nat (n div 10) @ [digit_char (n mod 10)])"
  by pat_completeness auto
termination
  by (relation "measure id") auto

declare str_nat.simps [simp del]

definition round_half_even :: "real \<Rightarrow> nat" where
  "round_half_even y =
     (let f = nat \<lfloor>y\<rfloor>; r = y - real f
      in if r < 1 / 2 then f else if r > 1 / 2 then f + 1 else if even f then f else f + 1)"

definition format_1f :: "real \<Rightarrow> string" where
  "format_1f x =
     (let t = round_half_even (\<bar>x\<bar> * 10)
      in (if x < 0 then ''-'' else []) @ str_nat (t div 10) @ ''.'' @ str_nat (t mod 10))"

section \<open>What a run does between two resolutions\<close>

text \<open>
  Between two resolutions of one pair a run makes other calls of
  \<^verbatim>\<open>get_instance_price\<close> (for the instances and for their alternatives) and of
  \<^verbatim>\<open>get_instance_metrics\<close>, in any number and order; their results are used
  elsewhere, only the optimizer they leave matters here.
\<close>

datatype request = PriceOf string "string option" | MetricsOf string

fun run_requests :: "aws \<Rightarrow> request list \<Rightarrow> optimizer \<Rightarrow> optimizer" where
  "run_requests env [] self = self"
| "run_requests env (PriceOf instance_type region_arg # reqs) self =
     run_requests env reqs (snd (get_instance_price env instance_type region_arg self))"
| "run_requests env (MetricsOf iid # reqs) self =
     run_requests env reqs (snd (get_instance_metrics env iid self))"

section \<open>Invariants of the iterations\<close>

text \<open>Every best value stored so far is non-negative.\<close>

definition nonneg_best :: "(category \<rightharpoonup> real) \<Rightarrow> bool" where
  "nonneg_best best = (\<forall>cat. case best cat of None \<Rightarrow> True | Some v \<Rightarrow> 0 \<le> v)"

text \<open>No entry of the category (of the side, in the basic script) computed so far is a
  saving.\<close>

definition no_saving_in :: "category \<Rightarrow> (category \<times> savings_entry) list \<Rightarrow> bool" where
  "no_saving_in c entries =
     list_all (\<lambda>(k, e). k \<noteq> c \<or> savings_per_month e \<le> 0) entries"

definition no_saving_side :: "bool \<Rightarrow> (bool \<times> savings_entry) list \<Rightarrow> bool" where
  "no_saving_side side entries =
     list_all (\<lambda>(g, e). g \<noteq> side \<or> savings_per_month e \<le> 0) entries"

section \<open>Sample collaborators and inputs\<close>

text \<open>An optimizer object right after \<^verbatim>\<open>__init__\<close> in region us-east-1.\<close>

definition fresh :: optimizer where
  "fresh = \<lparr>region = ''us-east-1'', pricing_cache = Map.empty, pricing_requests = [],
            metrics_requests = [], warnings = []\<rparr>"

text \<open>Services that know five instance types and two hourly datapoints per instance.\<close>

definition sample_services :: aws where
  "sample_services =
     \<lparr>get_products = (\<lambda>earlier instance_type location.
         case map_of [(''m5.xlarge'', 0.192), (''m7g.xlarge'', 0.1632),
                      (''m6a.xlarge'', 0.1728), (''m6i.xlarge'', 0.192),
                      (''m5.large'', 0.096)] instance_type of
           None \<Rightarrow> PriceList []
         | Some p \<Rightarrow> PriceList [OnDemandUSD p]),
      get_metric_statistics = (\<lambda>earlier iid. Datapoints [(10, 30), (14, 50)])\<rparr>"

text \<open>Services whose every call raises.\<close>

definition failing_services :: aws where
  "failing_services =
     \<lparr>get_products = (\<lambda>earlier instance_type location. ProductsException ''timeout''),
      get_metric_statistics = (\<lambda>earlier iid. MetricsException ''timeout'')\<rparr>"

text \<open>Services that answer every request with nothing.\<close>

definition empty_services :: aws where
  "empty_services =
     \<lparr>get_products = (\<lambda>earlier instance_type location. PriceList []),
      get_metric_statistics = (\<lambda>earlier iid. Datapoints [])\<rparr>"

text \<open>A pricing service that finds no product on the first request and one on every
  later request.\<close>

definition late_services :: aws where
  "late_services =
     \<lparr>get_products = (\<lambda>earlier instance_type location.
         if earlier = [] then PriceList [] else PriceList [OnDemandUSD 0.0832]),
      get_metric_statistics = (\<lambda>earlier iid. Datapoints [])\<rparr>"

definition running_m5_xlarge :: ec2_instance where
  "running_m5_xlarge =
     \<lparr>InstanceId = ''i-0001'', InstanceType = ''m5.xlarge'', StateName = ''running''\<rparr>"

definition running_m5_2xlarge :: ec2_instance where
  "running_m5_2xlarge =
     \<lparr>InstanceId = ''i-0002'', InstanceType = ''m5.2xlarge'', StateName = ''running''\<rparr>"

definition terminated_t3_large :: ec2_instance where
  "terminated_t3_large =
     \<lparr>InstanceId = ''i-0003'', InstanceType = ''t3.large'', StateName = ''terminated''\<rparr>"

section \<open>Splitting and the generator\<close>

lemma str_split_nonempty: "str_split sep s \<noteq> []"
  by (induction s) (auto split: list.splits)

lemma str_split_one: "str_split sep s = [b] \<Longrightarrow> s = b"
  by (induction s arbitrary: b) (auto simp: str_split_nonempty split: list.splits if_splits)

lemma str_split_two:
  "str_split sep s = [a, b] \<Longrightarrow> s = a @ sep # b"
proof (induction s arbitrary: a)
  case Nil
  then show ?case by simp
next
  case (Cons c cs)
  show ?case
  proof (cases "c = sep")
    case True
    with Cons.prems have "a = []" and "str_split sep cs = [b]" by simp_all
    then show ?thesis using True by (simp add: str_split_one)
  next
    case False
    with Cons.prems obtain p where "str_split sep cs = [p, b]" and "a = c # p"
      by (auto split: list.splits)
    with Cons.IH[of p] show ?thesis by simp
  qed
qed


lemma get_alternative_instances_parsed:
  "str_split (CHR ''.'') current_type = [family, sz] \<Longrightarrow>
   get_alternative_instances fmt current_type avg =
     family_alternatives family sz @ downsize_alternatives fmt family sz avg"
  by (simp add: get_alternative_instances_def)

lemma get_alternative_instances_malformed:
  "length (str_split (CHR ''.'') current_type) \<noteq> 2 \<Longrightarrow>
   get_alternative_instances fmt current_type avg = []"
  by (auto simp: get_alternative_instances_def split: list.splits)

section \<open>The price resolver and the utilization summary\<close>

lemma requested_region_update [simp]:
  "requested_region (self\<lparr>pricing_requests := a\<rparr>) ra = requested_region self ra"
  "requested_region (self\<lparr>pricing_cache := b\<rparr>) ra = requested_region self ra"
  "requested_region (self\<lparr>warnings := c\<rparr>) ra = requested_region self ra"
  "requested_region (self\<lparr>metrics_requests := d\<rparr>) ra = requested_region self ra"
  by (simp_all add: requested_region_def split: option.splits)

lemma get_instance_price_hit:
  "pricing_cache self (cache_key t (requested_region self ra)) = Some p \<Longrightarrow>
   get_instance_price env t ra self = (p, self)"
  by (simp add: get_instance_price_def Let_def)

lemma get_instance_price_priced:
  assumes "pricing_cache self (cache_key t (requested_region self ra)) = None"
    and "get_products env (pricing_requests self) t
           (region_name (requested_region self ra)) = PriceList (OnDemandUSD p # rest)"
  shows "get_instance_price env t ra self =
     (p, self\<lparr>pricing_requests := pricing_requests self @
                 [(t, region_name (requested_region self ra))],
              pricing_cache := (pricing_cache self)
                 (cache_key t (requested_region self ra) \<mapsto> p)\<rparr>)"
  using assms by (simp add: get_instance_price_def Let_def)

lemma get_instance_price_raised:
  assumes "pricing_cache self (cache_key t (requested_region self ra)) = None"
    and "get_products env (pricing_requests self) t
           (region_name (requested_region self ra)) = ProductsException e
         \<or> get_products env (pricing_requests self) t
           (region_name (requested_region self ra)) = PriceList (Unparseable e # rest)"
  shows "get_instance_price env t ra self =
     (0, self\<lparr>pricing_requests := pricing_requests self @
                 [(t, region_name (requested_region self ra))],
              warnings := warnings self @ [price_warning t e]\<rparr>)"
  using assms by (auto simp: get_instance_price_def Let_def)

lemma get_instance_price_no_sku:
  assumes "pricing_cache self (cache_key t (requested_region self ra)) = None"
    and "get_products env (pricing_requests self) t
           (region_name (requested_region self ra)) = PriceList []"
  shows "get_instance_price env t ra self =
     (0, self\<lparr>pricing_requests := pricing_requests self @
                 [(t, region_name (requested_region self ra))]\<rparr>)"
  using assms by (simp add: get_instance_price_def Let_def)

lemma get_instance_metrics_failed:
  "get_metric_statistics env (metrics_requests self) iid = MetricsException e \<Longrightarrow>
   get_instance_metrics env iid self =
     (\<lparr>cpu_avg = None, cpu_max = None, has_data = False\<rparr>,
      self\<lparr>metrics_requests := metrics_requests self @ [iid],
           warnings := warnings self @ [metrics_warning iid e]\<rparr>)"
  by (simp add: get_instance_metrics_def Let_def)

lemma get_instance_metrics_no_samples:
  "get_metric_statistics env (metrics_requests self) iid = Datapoints [] \<Longrightarrow>
   get_instance_metrics env iid self =
     (\<lparr>cpu_avg = None, cpu_max = None, has_data = False\<rparr>,
      self\<lparr>metrics_requests := metrics_requests self @ [iid]\<rparr>)"
  by (simp add: get_instance_metrics_def Let_def)

lemma get_instance_price_region:
  "region (snd (get_instance_price env t ra self)) = region self"
  by (simp add: get_instance_price_def Let_def
      split: option.splits products_response.splits list.splits price_item.splits)

lemma get_instance_price_keeps:
  "pricing_cache self k = Some p \<Longrightarrow>
   pricing_cache (snd (get_instance_price env t ra self)) k = Some p"
  by (auto simp: get_instance_price_def Let_def
      split: option.splits products_response.splits list.splits price_item.splits)

lemma get_instance_metrics_region:
  "region (snd (get_instance_metrics env iid self)) = region self"
  by (simp add: get_instance_metrics_def Let_def split: metrics_response.splits list.splits)

lemma get_instance_metrics_cache:
  "pricing_cache (snd (get_instance_metrics env iid self)) = pricing_cache self"
  by (simp add: get_instance_metrics_def Let_def split: metrics_response.splits list.splits)

lemma get_instance_metrics_requests:
  "pricing_requests (snd (get_instance_metrics env iid self)) = pricing_requests self"
  by (simp add: get_instance_metrics_def Let_def split: metrics_response.splits list.splits)

lemma run_requests_keeps:
  "pricing_cache self k = Some p \<Longrightarrow>
   pricing_cache (run_requests env reqs self) k = Some p \<and>
   region (run_requests env reqs self) = region self"
proof (induction reqs arbitrary: self)
  case Nil
  then show ?case by simp
next
  case (Cons r reqs)
  show ?case
  proof (cases r)
    case (PriceOf it rg)
    from Cons.IH[OF get_instance_price_keeps[OF Cons.prems, of env it rg]]
    show ?thesis by (simp add: PriceOf get_instance_price_region)
  next
    case (MetricsOf iid)
    have "pricing_cache (snd (get_instance_metrics env iid self)) k = Some p"
      using Cons.prems by (simp add: get_instance_metrics_cache)
    from Cons.IH[OF this] show ?thesis
      by (simp add: MetricsOf get_instance_metrics_region)
  qed
qed

lemma get_instance_price_cached_after:
  assumes "pricing_cache self (cache_key t (requested_region self ra)) \<noteq> None \<or>
     (\<exists>p rest. get_products env (pricing_requests self) t
         (region_name (requested_region self ra)) = PriceList (OnDemandUSD p # rest))"
  shows "pricing_cache (snd (get_instance_price env t ra self))
           (cache_key t (requested_region self ra)) = Some (fst (get_instance_price env t ra self))"
proof (cases "pricing_cache self (cache_key t (requested_region self ra))")
  case (Some p)
  then show ?thesis by (simp add: get_instance_price_hit)
next
  case None
  with assms obtain p rest where
    r: "get_products env (pricing_requests self) t
         (region_name (requested_region self ra)) = PriceList (OnDemandUSD p # rest)"
    by auto
  show ?thesis by (simp add: get_instance_price_priced[OF None r])
qed

lemma requested_region_same:
  "region s = region self \<Longrightarrow> requested_region s ra = requested_region self ra"
  by (simp add: requested_region_def split: option.splits)

section \<open>Savings arithmetic\<close>

lemma savings_percent_value:
  "savings_percent h p = Inr (if p > 0 then h / p * 100 else 0)"
  by (simp add: savings_percent_def truediv_def)

lemma compute_savings_value:
  "compute_savings current_price atype descr aprice =
     Inr \<lparr>alt_type = atype, description = descr, alt_price = aprice,
          savings_per_hour = current_price - aprice,
          savings_per_month = (current_price - aprice) * 730,
          percent = (if current_price > 0 then (current_price - aprice) / current_price * 100 else 0)\<rparr>"
  by (simp add: compute_savings_def savings_percent_value Let_def)

section \<open>The iterations of the enhanced script\<close>

lemma track_best_nonneg:
  assumes "nonneg_best best"
  shows "nonneg_best (track_best best cat x)"
proof -
  have b: "case best k of None \<Rightarrow> True | Some v \<Rightarrow> 0 \<le> v" for k
    using assms by (simp add: nonneg_best_def)
  have "case track_best best cat x k of None \<Rightarrow> True | Some v \<Rightarrow> 0 \<le> v" for k
    using b[of k] b[of cat]
    by (auto simp: track_best_def Let_def split: option.splits)
  then show ?thesis by (simp add: nonneg_best_def)
qed

lemma evaluate_alternatives_total:
  "\<exists>r. evaluate_alternatives env cp alts st = Inr r"
proof (induction alts arbitrary: st)
  case Nil
  show ?case by (cases st rule: prod_cases3) simp
next
  case (Cons a alts)
  obtain atype descr cat where a: "a = (atype, descr, cat)" by (cases a)
  obtain self best entries where st: "st = (self, best, entries)" by (rule prod_cases3)
  show ?case
    using Cons.IH by (simp add: a st compute_savings_value split: prod.splits)
qed

lemma evaluate_alternatives_nonneg:
  "evaluate_alternatives env cp alts (self, best, entries) = Inr (self', best', entries') \<Longrightarrow>
   nonneg_best best \<Longrightarrow> nonneg_best best'"
proof (induction alts arbitrary: self best entries)
  case Nil
  then show ?case by simp
next
  case (Cons a alts)
  obtain atype descr cat where a: "a = (atype, descr, cat)" by (cases a)
  obtain aprice self1 where p: "get_instance_price env atype (Some (region self)) self = (aprice, self1)"
    by (cases "get_instance_price env atype (Some (region self)) self")
  show ?case
  proof (cases "aprice = 0")
    case True
    with Cons.prems a p show ?thesis
      by (auto intro: Cons.IH)
  next
    case False
    with Cons.prems(1) a p
    have "evaluate_alternatives env cp alts
        (self1, track_best best cat ((cp - aprice) * 730),
         entries @ [(cat, \<lparr>alt_type = atype, description = descr, alt_price = aprice,
          savings_per_hour = cp - aprice,
          savings_per_month = (cp - aprice) * 730,
          percent = (if cp > 0 then (cp - aprice) / cp * 100 else 0)\<rparr>)]) = Inr (self', best', entries')"
      by (simp add: compute_savings_value)
    then show ?thesis
      using Cons.IH track_best_nonneg[OF Cons.prems(2)] by blast
  qed
qed

lemma evaluate_alternatives_zero:
  "evaluate_alternatives env cp alts (self, best, entries) = Inr (self', best', entries') \<Longrightarrow>
   (no_saving_in c entries \<longrightarrow> best c = None \<or> best c = Some 0) \<Longrightarrow>
   (no_saving_in c entries' \<longrightarrow> best' c = None \<or> best' c = Some 0)"
proof (induction alts arbitrary: self best entries)
  case Nil
  then show ?case by simp
next
  case (Cons a alts)
  obtain atype descr cat where a: "a = (atype, descr, cat)" by (cases a)
  obtain aprice self1 where p: "get_instance_price env atype (Some (region self)) self = (aprice, self1)"
    by (cases "get_instance_price env atype (Some (region self)) self")
  show ?case
  proof (cases "aprice = 0")
    case True
    with Cons.prems(1) a p
    have run: "evaluate_alternatives env cp alts (self1, best, entries) = Inr (self', best', entries')"
      by simp
    from Cons.IH[OF run Cons.prems(2)] show ?thesis .
  next
    case False
    let ?e = "\<lparr>alt_type = atype, description = descr, alt_price = aprice,
          savings_per_hour = cp - aprice,
          savings_per_month = (cp - aprice) * 730,
          percent = (if cp > 0 then (cp - aprice) / cp * 100 else 0)\<rparr>"
    from False Cons.prems(1) a p
    have run: "evaluate_alternatives env cp alts
        (self1, track_best best cat ((cp - aprice) * 730), entries @ [(cat, ?e)]) = Inr (self', best', entries')"
      by (simp add: compute_savings_value)
    have step: "no_saving_in c (entries @ [(cat, ?e)]) \<longrightarrow>
        track_best best cat ((cp - aprice) * 730) c = None \<or>
        track_best best cat ((cp - aprice) * 730) c = Some 0"
      using Cons.prems(2)
      by (auto simp: no_saving_in_def track_best_def Let_def split: option.splits)
    from Cons.IH[OF run step] show ?thesis .
  qed
qed

lemma add_to_totals_mono:
  "nonneg_best best \<Longrightarrow> totals c \<le> add_to_totals best totals c"
  unfolding nonneg_best_def add_to_totals_def
  by (erule allE[of _ c]) (simp split: option.splits)

lemma add_to_totals_zero:
  "best c = None \<or> best c = Some 0 \<Longrightarrow> add_to_totals best totals c = totals c"
  by (auto simp: add_to_totals_def)

lemma nonneg_best_empty: "nonneg_best Map.empty"
  by (simp add: nonneg_best_def)

lemma analyze_instance_cases:
  obtains (skipped) self' where "analyze_instance env fmt cm inst (self, acc) = Inr (self', acc)"
  | (analysed) self' cp best entries alts self2 where
      "analyze_instance env fmt cm inst (self, acc) =
         Inr (self', acc\<lparr>instances_analyzed := instances_analyzed acc + 1,
                 total_current_cost := total_current_cost acc + cp * 730,
                 total_potential_savings := add_to_totals best (total_potential_savings acc),
                 report := report acc @ [(InstanceId inst, entries)]\<rparr>)"
      "evaluate_alternatives env cp alts (self2, Map.empty, []) = Inr (self', best, entries)"
proof (cases "StateName inst = ''terminated''")
  case True
  then show ?thesis using skipped by (simp add: analyze_instance_def)
next
  case nt: False
  obtain cp self1 where p: "get_instance_price env (InstanceType inst) (Some (region self)) self = (cp, self1)"
    by (cases "get_instance_price env (InstanceType inst) (Some (region self)) self")
  show ?thesis
  proof (cases "cp = 0")
    case True
    then show ?thesis using skipped nt p by (simp add: analyze_instance_def)
  next
    case priced: False
    obtain m self2 where m: "(if cm \<and> StateName inst = ''running''
                         then get_instance_metrics env (InstanceId inst) self1
                         else (\<lparr>cpu_avg = None, cpu_max = None, has_data = False\<rparr>, self1)) = (m, self2)"
      by (cases "(if cm \<and> StateName inst = ''running''
                         then get_instance_metrics env (InstanceId inst) self1
                         else (\<lparr>cpu_avg = None, cpu_max = None, has_data = False\<rparr>, self1))")
    let ?alts = "get_alternative_instances fmt (InstanceType inst) (cpu_avg m)"
    show ?thesis
    proof (cases "?alts = []")
      case True
      then show ?thesis using skipped[of self2] nt p priced m
        by (simp add: analyze_instance_def Let_def)
    next
      case False
      obtain r where "evaluate_alternatives env cp ?alts (self2, Map.empty, []) = Inr r"
        using evaluate_alternatives_total by blast
      then obtain self3 best entries where
        ev: "evaluate_alternatives env cp ?alts (self2, Map.empty, []) = Inr (self3, best, entries)"
        by (cases r) auto
      show ?thesis
        using analysed[OF _ ev] nt p priced m False ev
        by (simp add: analyze_instance_def Let_def)
    qed
  qed
qed

lemma analyze_instance_total: "\<exists>r. analyze_instance env fmt cm inst st = Inr r"
  by (cases st) (metis analyze_instance_cases)

lemma analyze_instance_mono:
  assumes "analyze_instance env fmt cm inst (self, acc) = Inr (self', acc')"
  shows "total_potential_savings acc c \<le> total_potential_savings acc' c"
proof (cases rule: analyze_instance_cases[of env fmt cm inst self acc])
  case (skipped s)
  with assms show ?thesis by simp
next
  case (analysed s cp best entries alts self2)
  have "nonneg_best best"
    using evaluate_alternatives_nonneg[OF analysed(2) nonneg_best_empty] .
  with analysed(1) assms show ?thesis
    by (auto simp: add_to_totals_mono)
qed

lemma analyze_instance_zero:
  assumes "analyze_instance env fmt cm inst (self, acc) = Inr (self', acc')"
    and "report acc' = report acc @ [(iid, entries)]"
    and "no_saving_in c entries"
  shows "total_potential_savings acc' c = total_potential_savings acc c"
proof (cases rule: analyze_instance_cases[of env fmt cm inst self acc])
  case (skipped s)
  with assms show ?thesis by simp
next
  case (analysed s cp best es alts self2)
  from analysed(1) assms(1,2) have "es = entries" by auto
  with evaluate_alternatives_zero[OF analysed(2), of c] assms(3)
  have "best c = None \<or> best c = Some 0"
    by (simp add: no_saving_in_def)
  with analysed(1) assms(1) show ?thesis
    by (auto simp: add_to_totals_zero)
qed

lemma analyze_reservation_mono:
  "analyze_reservation env fmt cm insts (self, acc) = Inr (self', acc') \<Longrightarrow>
   total_potential_savings acc c \<le> total_potential_savings acc' c"
proof (induction insts arbitrary: self acc)
  case Nil
  then show ?case by simp
next
  case (Cons inst insts)
  then obtain s1 a1 where
    one: "analyze_instance env fmt cm inst (self, acc) = Inr (s1, a1)"
    and rest: "analyze_reservation env fmt cm insts (s1, a1) = Inr (self', acc')"
    by (auto split: sum.splits)
  from analyze_instance_mono[OF one] Cons.IH[OF rest] show ?case
    by (rule order_trans)
qed

lemma analyze_reservation_total: "\<exists>r. analyze_reservation env fmt cm insts st = Inr r"
proof (induction insts arbitrary: st)
  case Nil
  then show ?case by simp
next
  case (Cons inst insts)
  obtain r where "analyze_instance env fmt cm inst st = Inr r"
    using analyze_instance_total by blast
  with Cons.IH[of r] show ?case by simp
qed

lemma analyze_reservations_mono:
  "analyze_reservations env fmt cm rs (self, acc) = Inr (self', acc') \<Longrightarrow>
   total_potential_savings acc c \<le> total_potential_savings acc' c"
proof (induction rs arbitrary: self acc)
  case Nil
  then show ?case by simp
next
  case (Cons r rs)
  then obtain s1 a1 where
    one: "analyze_reservation env fmt cm r (self, acc) = Inr (s1, a1)"
    and rest: "analyze_reservations env fmt cm rs (s1, a1) = Inr (self', acc')"
    by (auto split: sum.splits)
  from analyze_reservation_mono[OF one] Cons.IH[OF rest] show ?case
    by (rule order_trans)
qed

lemma analyze_reservations_total: "\<exists>r. analyze_reservations env fmt cm rs st = Inr r"
proof (induction rs arbitrary: st)
  case Nil
  then show ?case by simp
next
  case (Cons r rs)
  obtain x where "analyze_reservation env fmt cm r st = Inr x"
    using analyze_reservation_total by blast
  with Cons.IH[of x] show ?case by simp
qed

lemma evaluate_alternatives_keeps:
  "evaluate_alternatives env cp alts (self, best, entries) = Inr (s, best', entries') \<Longrightarrow>
   pricing_cache self k = Some p \<Longrightarrow>
   pricing_cache s k = Some p \<and> region s = region self"
proof (induction alts arbitrary: self best entries)
  case Nil
  then show ?case by simp
next
  case (Cons a alts)
  obtain atype descr cat where a: "a = (atype, descr, cat)" by (cases a)
  obtain aprice self1 where
    g: "get_instance_price env atype (Some (region self)) self = (aprice, self1)"
    by (cases "get_instance_price env atype (Some (region self)) self")
  have k1: "pricing_cache self1 k = Some p"
    using get_instance_price_keeps[OF Cons.prems(2), of env atype "Some (region self)"] g by simp
  have r1: "region self1 = region self"
    using get_instance_price_region[of env atype "Some (region self)" self] g by simp
  from Cons.prems(1) a g obtain b1 e1 where
    "evaluate_alternatives env cp alts (self1, b1, e1) = Inr (s, best', entries')"
    by (auto simp: compute_savings_value split: if_splits)
  from Cons.IH[OF this k1] r1 show ?case by simp
qed

lemma analyze_instance_keeps:
  assumes "analyze_instance env fmt cm inst (self, acc) = Inr (s, acc')"
    and "pricing_cache self k = Some p"
  shows "pricing_cache s k = Some p \<and> region s = region self"
proof (cases "StateName inst = ''terminated''")
  case True
  with assms show ?thesis by (simp add: analyze_instance_def)
next
  case nt: False
  obtain cp self1 where
    g: "get_instance_price env (InstanceType inst) (Some (region self)) self = (cp, self1)"
    by (cases "get_instance_price env (InstanceType inst) (Some (region self)) self")
  have k1: "pricing_cache self1 k = Some p"
    using get_instance_price_keeps[OF assms(2), of env "InstanceType inst" "Some (region self)"] g
    by simp
  have r1: "region self1 = region self"
    using get_instance_price_region[of env "InstanceType inst" "Some (region self)" self] g by simp
  show ?thesis
  proof (cases "cp = 0")
    case True
    with assms(1) nt g k1 r1 show ?thesis by (simp add: analyze_instance_def)
  next
    case priced: False
    obtain m self2 where
      m: "(if cm \<and> StateName inst = ''running''
           then get_instance_metrics env (InstanceId inst) self1
           else (\<lparr>cpu_avg = None, cpu_max = None, has_data = False\<rparr>, self1)) = (m, self2)"
      by (cases "(if cm \<and> StateName inst = ''running''
           then get_instance_metrics env (InstanceId inst) self1
           else (\<lparr>cpu_avg = None, cpu_max = None, has_data = False\<rparr>, self1))")
    have k2: "pricing_cache self2 k = Some p" and r2: "region self2 = region self"
      using m k1 r1 get_instance_metrics_cache[of env "InstanceId inst" self1]
        get_instance_metrics_region[of env "InstanceId inst" self1]
      by (auto split: if_splits)
    let ?alts = "get_alternative_instances fmt (InstanceType inst) (cpu_avg m)"
    show ?thesis
    proof (cases "?alts = []")
      case True
      with assms(1) nt g priced m k2 r2 show ?thesis
        by (simp add: analyze_instance_def Let_def)
    next
      case False
      with assms(1) nt g priced m obtain best entries where
        "evaluate_alternatives env cp ?alts (self2, Map.empty, []) = Inr (s, best, entries)"
        by (auto simp: analyze_instance_def Let_def split: sum.splits)
      from evaluate_alternatives_keeps[OF this k2] r2 show ?thesis by simp
    qed
  qed
qed

lemma analyze_reservation_keeps:
  "analyze_reservation env fmt cm insts (self, acc) = Inr (s, acc') \<Longrightarrow>
   pricing_cache self k = Some p \<Longrightarrow>
   pricing_cache s k = Some p \<and> region s = region self"
proof (induction insts arbitrary: self acc)
  case Nil
  then show ?case by simp
next
  case (Cons inst insts)
  then obtain s1 a1 where
    one: "analyze_instance env fmt cm inst (self, acc) = Inr (s1, a1)"
    and rest: "analyze_reservation env fmt cm insts (s1, a1) = Inr (s, acc')"
    by (auto split: sum.splits)
  from analyze_instance_keeps[OF one Cons.prems(2)]
  have "pricing_cache s1 k = Some p" and r: "region s1 = region self" by simp_all
  from Cons.IH[OF rest this(1)] r show ?case by simp
qed

lemma analyze_reservations_keeps:
  "analyze_reservations env fmt cm rs (self, acc) = Inr (s, acc') \<Longrightarrow>
   pricing_cache self k = Some p \<Longrightarrow>
   pricing_cache s k = Some p \<and> region s = region self"
proof (induction rs arbitrary: self acc)
  case Nil
  then show ?case by simp
next
  case (Cons r rs)
  then obtain s1 a1 where
    one: "analyze_reservation env fmt cm r (self, acc) = Inr (s1, a1)"
    and rest: "analyze_reservations env fmt cm rs (s1, a1) = Inr (s, acc')"
    by (auto split: sum.splits)
  from analyze_reservation_keeps[OF one Cons.prems(2)]
  have "pricing_cache s1 k = Some p" and r: "region s1 = region self" by simp_all
  from Cons.IH[OF rest this(1)] r show ?case by simp
qed


section \<open>The iterations of the basic script\<close>

lemma is_graviton_table:
  "is_graviton ''Graviton2 ARM''" "is_graviton ''Graviton3''"
  "\<not> is_graviton ''AMD''" "\<not> is_graviton ''Intel 6th gen''"
  by code_simp+

lemma evaluate_alternatives_basic_total:
  "\<exists>r. evaluate_alternatives_basic cp alts st = Inr r"
proof (induction alts arbitrary: st)
  case Nil
  show ?case by (cases st rule: prod_cases3) simp
next
  case (Cons a alts)
  obtain atype descr where a: "a = (atype, descr)" by (cases a)
  obtain bg bn entries where st: "st = (bg, bn, entries)" by (rule prod_cases3)
  show ?case
    using Cons.IH by (simp add: a st compute_savings_value Let_def)
qed

lemma evaluate_alternatives_basic_inv:
  "evaluate_alternatives_basic cp alts (bg, bn, entries) = Inr (bg', bn', entries') \<Longrightarrow>
   0 \<le> bg \<and> 0 \<le> bn \<and>
   (no_saving_side True entries \<longrightarrow> bg = 0) \<and> (no_saving_side False entries \<longrightarrow> bn = 0) \<Longrightarrow>
   0 \<le> bg' \<and> 0 \<le> bn' \<and>
   (no_saving_side True entries' \<longrightarrow> bg' = 0) \<and> (no_saving_side False entries' \<longrightarrow> bn' = 0)"
proof (induction alts arbitrary: bg bn entries)
  case Nil
  then show ?case by simp
next
  case (Cons a alts)
  obtain atype descr where a: "a = (atype, descr)" by (cases a)
  let ?p = "get_instance_pricing_estimate atype"
  obtain e where cs: "compute_savings cp atype descr ?p = Inr e"
    by (simp add: compute_savings_value)
  define m where "m = savings_per_month e"
  show ?case
  proof (cases "?p = 0")
    case True
    with Cons.prems(1) a
    have run: "evaluate_alternatives_basic cp alts (bg, bn, entries) = Inr (bg', bn', entries')"
      by simp
    from Cons.IH[OF run Cons.prems(2)] show ?thesis .
  next
    case priced: False
    show ?thesis
    proof (cases "is_graviton descr")
      case True
      with priced Cons.prems(1) a cs
      have run: "evaluate_alternatives_basic cp alts
          (if m > bg then m else bg, bn, entries @ [(True, e)]) = Inr (bg', bn', entries')"
        by (simp add: Let_def m_def split: if_split_asm)
      have step: "0 \<le> (if m > bg then m else bg) \<and> 0 \<le> bn \<and>
          (no_saving_side True (entries @ [(True, e)]) \<longrightarrow> (if m > bg then m else bg) = 0) \<and>
          (no_saving_side False (entries @ [(True, e)]) \<longrightarrow> bn = 0)"
        using Cons.prems(2) by (auto simp: no_saving_side_def m_def)
      from Cons.IH[OF run step] show ?thesis .
    next
      case False
      with priced Cons.prems(1) a cs
      have run: "evaluate_alternatives_basic cp alts
          (bg, if m > bn then m else bn, entries @ [(False, e)]) = Inr (bg', bn', entries')"
        by (simp add: Let_def m_def split: if_split_asm)
      have step: "0 \<le> bg \<and> 0 \<le> (if m > bn then m else bn) \<and>
          (no_saving_side True (entries @ [(False, e)]) \<longrightarrow> bg = 0) \<and>
          (no_saving_side False (entries @ [(False, e)]) \<longrightarrow> (if m > bn then m else bn) = 0)"
        using Cons.prems(2) by (auto simp: no_saving_side_def m_def)
      from Cons.IH[OF run step] show ?thesis .
    qed
  qed
qed

lemma main_instance_cases:
  obtains (skipped) "main_instance inst acc = Inr acc"
    "get_alternative_instances_basic (InstanceType inst) = []"
  | (analysed) bg bn entries where
      "main_instance inst acc =
         Inr (acc\<lparr>instances_analyzed := instances_analyzed acc + 1,
                 total_current_cost := total_current_cost acc +
                    get_instance_pricing_estimate (InstanceType inst) * 730,
                 total_graviton_savings := total_graviton_savings acc + bg,
                 total_non_graviton_savings := total_non_graviton_savings acc + bn,
                 recommendations := recommendations acc @ [(InstanceId inst, entries)]\<rparr>)"
      "evaluate_alternatives_basic (get_instance_pricing_estimate (InstanceType inst))
         (get_alternative_instances_basic (InstanceType inst)) (0, 0, []) = Inr (bg, bn, entries)"
      "get_alternative_instances_basic (InstanceType inst) \<noteq> []"
proof (cases "get_alternative_instances_basic (InstanceType inst) = []")
  case True
  then show ?thesis using skipped by (simp add: main_instance_def)
next
  case False
  obtain r where "evaluate_alternatives_basic (get_instance_pricing_estimate (InstanceType inst))
         (get_alternative_instances_basic (InstanceType inst)) (0, 0, []) = Inr r"
    using evaluate_alternatives_basic_total by blast
  then obtain bg bn entries where
    ev: "evaluate_alternatives_basic (get_instance_pricing_estimate (InstanceType inst))
         (get_alternative_instances_basic (InstanceType inst)) (0, 0, []) = Inr (bg, bn, entries)"
    by (cases r) auto
  show ?thesis
    using analysed[OF _ ev False] False ev by (simp add: main_instance_def Let_def)
qed

lemma main_instance_total: "\<exists>r. main_instance inst acc = Inr r"
  by (metis main_instance_cases)

lemma main_instance_mono:
  assumes "main_instance inst acc = Inr acc'"
  shows "total_graviton_savings acc \<le> total_graviton_savings acc' \<and>
         total_non_graviton_savings acc \<le> total_non_graviton_savings acc'"
proof (cases rule: main_instance_cases[of inst acc])
  case skipped
  with assms show ?thesis by simp
next
  case (analysed bg bn entries)
  from evaluate_alternatives_basic_inv[OF analysed(2)]
  have "0 \<le> bg \<and> 0 \<le> bn" by (simp add: no_saving_side_def)
  with analysed(1) assms show ?thesis by auto
qed

lemma main_instance_zero:
  assumes "main_instance inst acc = Inr acc'"
    and "recommendations acc' = recommendations acc @ [(iid, entries)]"
  shows "(no_saving_side True entries \<longrightarrow> total_graviton_savings acc' = total_graviton_savings acc) \<and>
         (no_saving_side False entries \<longrightarrow> total_non_graviton_savings acc' = total_non_graviton_savings acc)"
proof (cases rule: main_instance_cases[of inst acc])
  case skipped
  with assms show ?thesis by simp
next
  case (analysed bg bn es)
  from analysed(1) assms have "es = entries" by auto
  with evaluate_alternatives_basic_inv[OF analysed(2)]
  have "(no_saving_side True entries \<longrightarrow> bg = 0) \<and> (no_saving_side False entries \<longrightarrow> bn = 0)"
    by (simp add: no_saving_side_def)
  with analysed(1) assms(1) show ?thesis by auto
qed

lemma main_reservation_mono:
  "main_reservation insts acc = Inr acc' \<Longrightarrow>
   total_graviton_savings acc \<le> total_graviton_savings acc' \<and>
   total_non_graviton_savings acc \<le> total_non_graviton_savings acc'"
proof (induction insts arbitrary: acc)
  case Nil
  then show ?case by simp
next
  case (Cons inst insts)
  then obtain a1 where one: "main_instance inst acc = Inr a1"
    and rest: "main_reservation insts a1 = Inr acc'"
    by (auto split: sum.splits)
  from main_instance_mono[OF one] Cons.IH[OF rest] show ?case by linarith
qed

lemma main_reservation_total: "\<exists>r. main_reservation insts acc = Inr r"
proof (induction insts arbitrary: acc)
  case Nil
  then show ?case by simp
next
  case (Cons inst insts)
  obtain r where "main_instance inst acc = Inr r"
    using main_instance_total by blast
  with Cons.IH[of r] show ?case by simp
qed

lemma main_reservations_mono:
  "main_reservations rs acc = Inr acc' \<Longrightarrow>
   total_graviton_savings acc \<le> total_graviton_savings acc' \<and>
   total_non_graviton_savings acc \<le> total_non_graviton_savings acc'"
proof (induction rs arbitrary: acc)
  case Nil
  then show ?case by simp
next
  case (Cons r rs)
  then obtain a1 where one: "main_reservation r acc = Inr a1"
    and rest: "main_reservations rs a1 = Inr acc'"
    by (auto split: sum.splits)
  from main_reservation_mono[OF one] Cons.IH[OF rest] show ?case by linarith
qed

lemma main_reservations_total: "\<exists>r. main_reservations rs acc = Inr r"
proof (induction rs arbitrary: acc)
  case Nil
  then show ?case by simp
next
  case (Cons r rs)
  obtain x where "main_reservation r acc = Inr x"
    using main_reservation_total by blast
  with Cons.IH[of x] show ?case by simp
qed

lemma priced_when_alternatives:
  "get_alternative_instances_basic t \<noteq> [] \<Longrightarrow> 0 < get_instance_pricing_estimate t"
  by (auto simp: get_alternative_instances_basic_def t3_to_alternatives_def m5_to_alternatives_def
      get_instance_pricing_estimate_def pricing_map_def split: if_splits)

section \<open>Concrete runs and skipped instances\<close>

lemmas enhanced_run_defs = analyze_instance_def get_instance_price_def get_instance_metrics_def
  get_alternative_instances_def family_alternatives_def downsize_alternatives_def downsize_map_def
  startswith_def requested_region_def cache_key_def region_name_def region_map_def
  compute_savings_value track_best_def add_to_totals_def Let_def
  sample_services_def running_m5_xlarge_def fresh_def initial_summary_def

lemmas basic_run_defs = main_instance_def get_alternative_instances_basic_def
  t3_to_alternatives_def m5_to_alternatives_def get_instance_pricing_estimate_def pricing_map_def
  compute_savings_value is_graviton_table Let_def initial_totals_def

lemma sample_run:
  assumes "analyze_instance sample_services format_1f True running_m5_xlarge (fresh, initial_summary) = Inr (s, a)"
  shows "map (\<lambda>(i, es). (i, map (\<lambda>(k, e). (k, savings_per_month e)) es)) (report a) =
       [(''i-0001'', [(graviton, 21.024), (amd, 14.016), (intel, 0), (downsize, 70.08)])] \<and>
     total_potential_savings a graviton = 21.024 \<and>
     total_potential_savings a amd = 14.016 \<and>
     total_potential_savings a downsize = 70.08"
  using assms
  by (auto simp: enhanced_run_defs)

lemma sample_basic_run:
  assumes "main_instance running_m5_2xlarge initial_totals = Inr a"
  shows "map (\<lambda>(i, es). (i, map (\<lambda>(g, e). (g, savings_per_month e)) es)) (recommendations a) =
       [(''i-0002'', [(False, 28.032), (False, 0)])] \<and>
     total_non_graviton_savings a = 28.032"
  using assms
  by (auto simp: basic_run_defs running_m5_2xlarge_def)


lemma analyze_instance_terminated:
  "StateName inst = ''terminated'' \<Longrightarrow>
   analyze_instance env fmt cm inst (self, acc) = Inr (self, acc)"
  by (simp add: analyze_instance_def)

lemma analyze_instance_unpriced:
  "fst (get_instance_price env (InstanceType inst) (Some (region self)) self) = 0 \<Longrightarrow>
   \<exists>s. analyze_instance env fmt cm inst (self, acc) = Inr (s, acc)"
  by (cases "get_instance_price env (InstanceType inst) (Some (region self)) self")
    (simp add: analyze_instance_def)

lemma analyze_instance_no_alternatives:
  "get_alternative_instances fmt (InstanceType inst)
     (cpu_avg (fst (if cm \<and> StateName inst = ''running''
        then get_instance_metrics env (InstanceId inst)
               (snd (get_instance_price env (InstanceType inst) (Some (region self)) self))
        else (\<lparr>cpu_avg = None, cpu_max = None, has_data = False\<rparr>,
              snd (get_instance_price env (InstanceType inst) (Some (region self)) self))))) = [] \<Longrightarrow>
   \<exists>s. analyze_instance env fmt cm inst (self, acc) = Inr (s, acc)"
  by (cases "get_instance_price env (InstanceType inst) (Some (region self)) self")
    (auto simp: analyze_instance_def Let_def split: prod.splits)


lemma main_instance_unpriced:
  "get_instance_pricing_estimate (InstanceType inst) = 0 \<Longrightarrow> main_instance inst acc = Inr acc"
  using priced_when_alternatives[of "InstanceType inst"]
  by (cases "get_alternative_instances_basic (InstanceType inst) = []")
    (simp_all add: main_instance_def)

section \<open>Claims about the alternative generator\<close>

text \<open>
  Claim C2, as the code has it. A type whose split on the dot does not give exactly two
  parts has no alternatives, whatever the utilization average. The generator checks
  nothing else about the parts: an empty size, or a family it does not know, passes.
\<close>

theorem malformed_type_no_alternatives:
  "length (str_split (CHR ''.'') current_type) \<noteq> 2 \<Longrightarrow>
   get_alternative_instances fmt current_type avg = []"
  by (rule get_alternative_instances_malformed)

theorem malformed_type_no_alternatives_witness:
  "length (str_split (CHR ''.'') ''m5.xlarge.x'') \<noteq> 2 \<and>
   get_alternative_instances format_1f ''m5.xlarge.x'' (Some 5) = []"
  using malformed_type_no_alternatives[of "''m5.xlarge.x''" format_1f "Some 5"] by simp

text \<open>
  Claim C2, as stated, fails: the type \<open>t3.\<close> splits into the family \<open>t3\<close> and an
  empty size, which is no size, and the generator still returns two alternatives.
\<close>

theorem empty_size_still_generates:
  "str_split (CHR ''.'') ''t3.'' = [''t3'', []] \<and>
   get_alternative_instances format_1f ''t3.'' None =
     [(''t4g.'', ''Graviton2 ARM - 20% cheaper'', graviton),
      (''t3a.'', ''AMD - 10% cheaper'', amd)]"
  by (simp add: get_alternative_instances_def family_alternatives_def startswith_def
      downsize_alternatives_def)

text \<open>
  Claim C7. For a type that splits into a family and a size, a utilization average below
  20 and a size with an entry in the shrink table, the result is not empty, its last
  element is the same family at the smaller size with the downsize category, and its
  rationale contains the formatted average.
\<close>

theorem low_cpu_appends_downsize:
  assumes "str_split (CHR ''.'') current_type = [family, sz]"
    and "a < 20"
    and "downsize_map sz = Some smaller_size"
  shows "get_alternative_instances fmt current_type (Some a) \<noteq> [] \<and>
     last (get_alternative_instances fmt current_type (Some a)) =
       (family @ ''.'' @ smaller_size, ''Downsize (low CPU: '' @ fmt a @ ''%)'', downsize) \<and>
     (\<exists>before after.
        fst (snd (last (get_alternative_instances fmt current_type (Some a)))) =
          before @ fmt a @ after)"
proof -
  have d: "downsize_alternatives fmt family sz (Some a) =
      [(family @ ''.'' @ smaller_size, ''Downsize (low CPU: '' @ fmt a @ ''%)'', downsize)]"
    using assms(2,3) by (simp add: downsize_alternatives_def)
  have g: "get_alternative_instances fmt current_type (Some a) =
      family_alternatives family sz @
      [(family @ ''.'' @ smaller_size, ''Downsize (low CPU: '' @ fmt a @ ''%)'', downsize)]"
    using assms(1) d by (simp add: get_alternative_instances_parsed)
  have "\<exists>before after. ''Downsize (low CPU: '' @ fmt a @ ''%)'' = before @ fmt a @ after"
    by blast
  with g show ?thesis by simp
qed

theorem low_cpu_appends_downsize_witness:
  "str_split (CHR ''.'') ''t3.large'' = [''t3'', ''large''] \<and> (12::real) < 20 \<and>
   downsize_map ''large'' = Some ''medium'' \<and>
   last (get_alternative_instances format_1f ''t3.large'' (Some 12)) =
     (''t3.medium'', ''Downsize (low CPU: 12.0%)'', downsize)"
proof -
  have s: "str_split (CHR ''.'') ''t3.large'' = [''t3'', ''large'']" by simp
  have l: "(12::real) < 20" by simp
  have m: "downsize_map ''large'' = Some ''medium''" by (simp add: downsize_map_def)
  have f: "format_1f 12 = ''12.0''" by code_simp
  from low_cpu_appends_downsize[OF s l m, of format_1f] s l m f show ?thesis by simp
qed

text \<open>
  Claim C10. A type that splits into the family \<open>t3a\<close> and a size takes the branch of
  the prefix \<open>t3\<close>, and the second element of the result is the type itself, offered as
  the AMD alternative, whatever the size and the utilization.
\<close>

theorem t3a_offered_itself:
  assumes "str_split (CHR ''.'') current_type = [''t3a'', sz]"
  shows "startswith ''t3a'' ''t3'' \<and>
     2 \<le> length (get_alternative_instances fmt current_type avg) \<and>
     get_alternative_instances fmt current_type avg ! 1 =
       (current_type, ''AMD - 10% cheaper'', amd)"
proof -
  have t: "current_type = ''t3a.'' @ sz"
    using str_split_two[OF assms] by simp
  have p: "startswith ''t3a'' ''t3''" by (simp add: startswith_def)
  then have "family_alternatives ''t3a'' sz =
      [(''t4g.'' @ sz, ''Graviton2 ARM - 20% cheaper'', graviton),
       (''t3a.'' @ sz, ''AMD - 10% cheaper'', amd)]"
    by (simp add: family_alternatives_def)
  then have "get_alternative_instances fmt current_type avg =
      [(''t4g.'' @ sz, ''Graviton2 ARM - 20% cheaper'', graviton),
       (current_type, ''AMD - 10% cheaper'', amd)] @ downsize_alternatives fmt ''t3a'' sz avg"
    using assms t by (simp add: get_alternative_instances_parsed)
  with p show ?thesis by simp
qed

theorem t3a_offered_itself_witness:
  "str_split (CHR ''.'') ''t3a.large'' = [''t3a'', ''large''] \<and>
   get_alternative_instances format_1f ''t3a.large'' None ! 1 =
     (''t3a.large'', ''AMD - 10% cheaper'', amd)"
proof -
  have s: "str_split (CHR ''.'') ''t3a.large'' = [''t3a'', ''large'']" by simp
  from t3a_offered_itself[OF s, of format_1f None] s show ?thesis by simp
qed

section \<open>Claims about the price resolver\<close>

text \<open>
  Claim C3, as the code has it. When the first resolution of a type and region finds the
  price in the cache or obtains one from the pricing service, every later resolution of
  the same pair in the run returns the same price and changes nothing, so no request is
  sent: directly after the first, after any other price and metrics calls, and after the
  analysis of any reservations.
\<close>

theorem second_lookup_served_from_cache:
  assumes "pricing_cache self (cache_key t (requested_region self ra)) \<noteq> None \<or>
     (\<exists>p rest. get_products env (pricing_requests self) t
         (region_name (requested_region self ra)) = PriceList (OnDemandUSD p # rest))"
  shows "fst (get_instance_price env t ra
                (run_requests env between (snd (get_instance_price env t ra self)))) =
           fst (get_instance_price env t ra self) \<and>
         snd (get_instance_price env t ra
                (run_requests env between (snd (get_instance_price env t ra self)))) =
           run_requests env between (snd (get_instance_price env t ra self)) \<and>
         pricing_requests (snd (get_instance_price env t ra
                (run_requests env between (snd (get_instance_price env t ra self))))) =
           pricing_requests (run_requests env between (snd (get_instance_price env t ra self))) \<and>
         get_instance_price env t ra (snd (get_instance_price env t ra self)) =
           get_instance_price env t ra self \<and>
         (analyze_reservations env fmt cm rs (snd (get_instance_price env t ra self), acc) =
            Inr (s, acc') \<longrightarrow>
          get_instance_price env t ra s = (fst (get_instance_price env t ra self), s))"
proof -
  let ?p1 = "fst (get_instance_price env t ra self)"
  let ?s1 = "snd (get_instance_price env t ra self)"
  let ?k = "cache_key t (requested_region self ra)"
  have c1: "pricing_cache ?s1 ?k = Some ?p1"
    using get_instance_price_cached_after[OF assms] .
  have r1: "region ?s1 = region self"
    by (rule get_instance_price_region)
  have hit: "get_instance_price env t ra s' = (?p1, s')"
    if "pricing_cache s' ?k = Some ?p1" and "region s' = region self" for s'
  proof -
    have "requested_region s' ra = requested_region self ra"
      using that(2) by (rule requested_region_same)
    with that(1) show ?thesis by (simp add: get_instance_price_hit)
  qed
  have after_requests: "get_instance_price env t ra (run_requests env between ?s1) =
      (?p1, run_requests env between ?s1)"
    using run_requests_keeps[OF c1, of env between] r1 by (intro hit) simp_all
  have directly: "get_instance_price env t ra ?s1 = get_instance_price env t ra self"
    using hit[OF c1 r1] by simp
  have after_analysis: "get_instance_price env t ra s = (?p1, s)"
    if "analyze_reservations env fmt cm rs (?s1, acc) = Inr (s, acc')"
    using analyze_reservations_keeps[OF that c1] r1 by (intro hit) simp_all
  from after_requests directly after_analysis show ?thesis by simp
qed

theorem second_lookup_served_from_cache_witness:
  "get_products sample_services (pricing_requests fresh) ''m5.xlarge''
     (region_name (requested_region fresh None)) = PriceList [OnDemandUSD 0.192] \<and>
   fst (get_instance_price sample_services ''m5.xlarge'' None fresh) = 0.192 \<and>
   fst (get_instance_price sample_services ''m5.xlarge'' None
          (run_requests sample_services [PriceOf ''m7g.xlarge'' None, MetricsOf ''i-0001'']
             (snd (get_instance_price sample_services ''m5.xlarge'' None fresh)))) = 0.192 \<and>
   pricing_requests (snd (get_instance_price sample_services ''m5.xlarge'' None
          (run_requests sample_services [PriceOf ''m7g.xlarge'' None, MetricsOf ''i-0001'']
             (snd (get_instance_price sample_services ''m5.xlarge'' None fresh))))) =
     [(''m5.xlarge'', ''US East (N. Virginia)''), (''m7g.xlarge'', ''US East (N. Virginia)'')] \<and>
   (\<exists>s a. analyze_reservations sample_services format_1f True [[running_m5_xlarge]]
             (snd (get_instance_price sample_services ''m5.xlarge'' None fresh), initial_summary) =
             Inr (s, a) \<and>
          get_instance_price sample_services ''m5.xlarge'' None s = (0.192, s))"
proof -
  have r: "get_products sample_services (pricing_requests fresh) ''m5.xlarge''
     (region_name (requested_region fresh None)) = PriceList [OnDemandUSD 0.192]"
    by (simp add: sample_services_def)
  have one: "fst (get_instance_price sample_services ''m5.xlarge'' None fresh) = 0.192"
    by (simp add: get_instance_price_def Let_def sample_services_def fresh_def
        requested_region_def cache_key_def region_name_def region_map_def)
  have between: "pricing_requests
      (run_requests sample_services [PriceOf ''m7g.xlarge'' None, MetricsOf ''i-0001'']
         (snd (get_instance_price sample_services ''m5.xlarge'' None fresh))) =
      [(''m5.xlarge'', ''US East (N. Virginia)''), (''m7g.xlarge'', ''US East (N. Virginia)'')]"
    by (simp add: get_instance_price_def get_instance_metrics_def Let_def sample_services_def
        fresh_def requested_region_def cache_key_def region_name_def region_map_def)
  obtain x where "analyze_reservations sample_services format_1f True [[running_m5_xlarge]]
      (snd (get_instance_price sample_services ''m5.xlarge'' None fresh), initial_summary) = Inr x"
    using analyze_reservations_total by blast
  then obtain s a where
    pass: "analyze_reservations sample_services format_1f True [[running_m5_xlarge]]
      (snd (get_instance_price sample_services ''m5.xlarge'' None fresh), initial_summary) =
      Inr (s, a)"
    by (cases x) auto
  note at_sample = second_lookup_served_from_cache[of fresh "''m5.xlarge''" None sample_services
      "[PriceOf ''m7g.xlarge'' None, MetricsOf ''i-0001'']" format_1f True "[[running_m5_xlarge]]"
      initial_summary s a, OF disjI2, OF exI, OF exI, OF r]
  from at_sample pass one
  have again: "get_instance_price sample_services ''m5.xlarge'' None s = (0.192, s)"
    by simp
  have "\<exists>s a. analyze_reservations sample_services format_1f True [[running_m5_xlarge]]
             (snd (get_instance_price sample_services ''m5.xlarge'' None fresh), initial_summary) =
             Inr (s, a) \<and>
          get_instance_price sample_services ''m5.xlarge'' None s = (0.192, s)"
    by (rule exI[of _ s], rule exI[of _ a]) (simp only: pass again simp_thms)
  with at_sample r one between show ?thesis by simp
qed

text \<open>
  Claim C3, as stated, fails: with a service that finds nothing on the first request,
  the first resolution returns 0, and the second resolution of the same pair sends a
  second request and returns another price.
\<close>

theorem failed_lookup_asks_again:
  "fst (get_instance_price late_services ''t3.large'' (Some ''us-east-1'') fresh) = 0 \<and>
   fst (get_instance_price late_services ''t3.large'' (Some ''us-east-1'')
          (snd (get_instance_price late_services ''t3.large'' (Some ''us-east-1'') fresh))) =
     0.0832 \<and>
   pricing_requests
     (snd (get_instance_price late_services ''t3.large'' (Some ''us-east-1'') fresh)) =
     [(''t3.large'', ''US East (N. Virginia)'')] \<and>
   pricing_requests
     (snd (get_instance_price late_services ''t3.large'' (Some ''us-east-1'')
          (snd (get_instance_price late_services ''t3.large'' (Some ''us-east-1'') fresh)))) =
     [(''t3.large'', ''US East (N. Virginia)''), (''t3.large'', ''US East (N. Virginia)'')]"
  by (simp add: get_instance_price_def Let_def late_services_def fresh_def
      requested_region_def cache_key_def region_name_def region_map_def)

text \<open>
  Claim C5, as the code has it. On a cache miss, when the pricing call raises or the
  first item of its price list cannot be parsed, the resolver returns 0 and prints one
  warning line with the exception's text; when the price list is empty it returns 0 and
  prints nothing. In each case the caller gets a value.
\<close>

theorem failed_lookup_returns_zero:
  assumes "pricing_cache self (cache_key t (requested_region self ra)) = None"
  shows "(get_products env (pricing_requests self) t (region_name (requested_region self ra)) =
            ProductsException e \<or>
          get_products env (pricing_requests self) t (region_name (requested_region self ra)) =
            PriceList (Unparseable e # rest) \<longrightarrow>
            fst (get_instance_price env t ra self) = 0 \<and>
            warnings (snd (get_instance_price env t ra self)) =
              warnings self @ [price_warning t e]) \<and>
         (get_products env (pricing_requests self) t (region_name (requested_region self ra)) =
            PriceList [] \<longrightarrow>
            fst (get_instance_price env t ra self) = 0 \<and>
            warnings (snd (get_instance_price env t ra self)) = warnings self)"
  using get_instance_price_raised[OF assms, of env e rest]
    get_instance_price_no_sku[OF assms, of env]
  by auto

theorem failed_lookup_returns_zero_witness:
  "pricing_cache fresh (cache_key ''t3.large'' (requested_region fresh None)) = None \<and>
   get_products failing_services (pricing_requests fresh) ''t3.large''
     (region_name (requested_region fresh None)) = ProductsException ''timeout'' \<and>
   get_products empty_services (pricing_requests fresh) ''t3.large''
     (region_name (requested_region fresh None)) = PriceList [] \<and>
   fst (get_instance_price failing_services ''t3.large'' None fresh) = 0 \<and>
   warnings (snd (get_instance_price failing_services ''t3.large'' None fresh)) =
     [''Warning: Could not fetch price for t3.large: timeout''] \<and>
   fst (get_instance_price empty_services ''t3.large'' None fresh) = 0 \<and>
   warnings (snd (get_instance_price empty_services ''t3.large'' None fresh)) = []"
proof -
  have m: "pricing_cache fresh (cache_key ''t3.large'' (requested_region fresh None)) = None"
    by (simp add: fresh_def)
  have f: "get_products failing_services (pricing_requests fresh) ''t3.large''
      (region_name (requested_region fresh None)) = ProductsException ''timeout''"
    by (simp add: failing_services_def)
  have n: "get_products empty_services (pricing_requests fresh) ''t3.large''
      (region_name (requested_region fresh None)) = PriceList []"
    by (simp add: empty_services_def)
  have w: "warnings fresh = []" by (simp add: fresh_def)
  from failed_lookup_returns_zero[OF m, of failing_services "''timeout''" "[]"]
    failed_lookup_returns_zero[OF m, of empty_services "''timeout''" "[]"] m f n w
  show ?thesis by (simp add: price_warning_def)
qed

text \<open>
  Claim C5, as stated, fails where the service has no matching product: the resolver
  returns 0 and prints no warning, so nothing is reported.
\<close>

theorem no_sku_not_reported:
  "fst (get_instance_price empty_services ''t3.large'' (Some ''us-east-1'') fresh) = 0 \<and>
   warnings fresh = [] \<and>
   warnings (snd (get_instance_price empty_services ''t3.large'' (Some ''us-east-1'') fresh)) = []"
  by (simp add: get_instance_price_def Let_def empty_services_def fresh_def
      requested_region_def cache_key_def region_name_def region_map_def)

text \<open>
  Claim C9. On a cache miss, when the pricing call raises, the first item cannot be
  parsed or the price list is empty, the resolver returns 0 and leaves the cache as it
  was, and resolving the same pair again sends the request a second time.
\<close>

theorem failed_lookup_not_cached:
  assumes "pricing_cache self (cache_key t (requested_region self ra)) = None"
    and "get_products env (pricing_requests self) t (region_name (requested_region self ra)) =
           ProductsException e \<or>
         get_products env (pricing_requests self) t (region_name (requested_region self ra)) =
           PriceList (Unparseable e # rest) \<or>
         get_products env (pricing_requests self) t (region_name (requested_region self ra)) =
           PriceList []"
  shows "fst (get_instance_price env t ra self) = 0 \<and>
     pricing_cache (snd (get_instance_price env t ra self)) = pricing_cache self \<and>
     pricing_requests (snd (get_instance_price env t ra self)) =
       pricing_requests self @ [(t, region_name (requested_region self ra))] \<and>
     pricing_requests (snd (get_instance_price env t ra (snd (get_instance_price env t ra self)))) =
       pricing_requests self @
       [(t, region_name (requested_region self ra)), (t, region_name (requested_region self ra))]"
proof -
  let ?s1 = "snd (get_instance_price env t ra self)"
  have first: "fst (get_instance_price env t ra self) = 0 \<and>
     pricing_cache ?s1 = pricing_cache self \<and>
     pricing_requests ?s1 = pricing_requests self @ [(t, region_name (requested_region self ra))] \<and>
     region ?s1 = region self"
    using assms(2) get_instance_price_raised[OF assms(1), of env e rest]
      get_instance_price_no_sku[OF assms(1), of env]
    by auto
  then have rr: "requested_region ?s1 ra = requested_region self ra"
    by (simp add: requested_region_def split: option.splits)
  have miss: "pricing_cache ?s1 (cache_key t (requested_region ?s1 ra)) = None"
    using first rr assms(1) by simp
  have "pricing_requests (snd (get_instance_price env t ra ?s1)) =
      pricing_requests ?s1 @ [(t, region_name (requested_region ?s1 ra))]"
    using miss
    by (simp add: get_instance_price_def Let_def
        split: products_response.splits list.splits price_item.splits)
  with first rr show ?thesis by simp
qed

theorem failed_lookup_not_cached_witness:
  "pricing_cache fresh (cache_key ''t3.large'' (requested_region fresh None)) = None \<and>
   get_products failing_services (pricing_requests fresh) ''t3.large''
     (region_name (requested_region fresh None)) = ProductsException ''timeout'' \<and>
   fst (get_instance_price failing_services ''t3.large'' None fresh) = 0 \<and>
   pricing_cache (snd (get_instance_price failing_services ''t3.large'' None fresh)) =
     pricing_cache fresh \<and>
   pricing_requests (snd (get_instance_price failing_services ''t3.large'' None
       (snd (get_instance_price failing_services ''t3.large'' None fresh)))) =
     [(''t3.large'', ''US East (N. Virginia)''), (''t3.large'', ''US East (N. Virginia)'')]"
proof -
  have m: "pricing_cache fresh (cache_key ''t3.large'' (requested_region fresh None)) = None"
    by (simp add: fresh_def)
  have f: "get_products failing_services (pricing_requests fresh) ''t3.large''
      (region_name (requested_region fresh None)) = ProductsException ''timeout''"
    by (simp add: failing_services_def)
  have n: "region_name (requested_region fresh None) = ''US East (N. Virginia)''"
    by (simp add: region_name_def requested_region_def fresh_def region_map_def)
  have q: "pricing_requests fresh = []" by (simp add: fresh_def)
  from failed_lookup_not_cached[OF m disjI1[OF f]] m f n q
  show ?thesis by simp
qed

section \<open>Claims about the utilization summary\<close>

text \<open>
  Claim C6. When the metrics call raises, the summary returned is the one returned for
  zero datapoints: no data, and neither an average nor a maximum.
\<close>

theorem metrics_failure_like_no_samples:
  assumes "get_metric_statistics env (metrics_requests self) iid = MetricsException e"
    and "get_metric_statistics env' (metrics_requests self') iid = Datapoints []"
  shows "fst (get_instance_metrics env iid self) = fst (get_instance_metrics env' iid self') \<and>
     fst (get_instance_metrics env iid self) =
       \<lparr>cpu_avg = None, cpu_max = None, has_data = False\<rparr>"
  by (simp add: get_instance_metrics_failed[OF assms(1)]
      get_instance_metrics_no_samples[OF assms(2)])

theorem metrics_failure_like_no_samples_witness:
  "get_metric_statistics failing_services (metrics_requests fresh) ''i-0001'' =
     MetricsException ''timeout'' \<and>
   get_metric_statistics empty_services (metrics_requests fresh) ''i-0001'' = Datapoints [] \<and>
   fst (get_instance_metrics failing_services ''i-0001'' fresh) =
     fst (get_instance_metrics empty_services ''i-0001'' fresh) \<and>
   fst (get_instance_metrics failing_services ''i-0001'' fresh) =
     \<lparr>cpu_avg = None, cpu_max = None, has_data = False\<rparr>"
proof -
  have a: "get_metric_statistics failing_services (metrics_requests fresh) ''i-0001'' =
      MetricsException ''timeout''"
    by (simp add: failing_services_def)
  have b: "get_metric_statistics empty_services (metrics_requests fresh) ''i-0001'' =
      Datapoints []"
    by (simp add: empty_services_def)
  from metrics_failure_like_no_samples[OF a b] a b show ?thesis by blast
qed

section \<open>Claims about the savings arithmetic\<close>

text \<open>
  Claim C8. The savings percent, the same expression in both scripts, is 0 when the
  current price is 0, is the hourly saving over the current price times 100 when the
  current price is positive, and never raises.
\<close>

theorem savings_percent_guarded:
  "savings_percent h 0 = Inr 0 \<and>
   (0 < p \<longrightarrow> savings_percent h p = Inr (h / p * 100)) \<and>
   (\<exists>v. savings_percent h p = Inr v)"
  by (simp add: savings_percent_value)

theorem savings_percent_guarded_witness:
  "(0::real) < 0.192 \<and> savings_percent (0.192 - 0.1632) 0.192 = Inr 15 \<and>
   savings_percent 0.0288 0 = Inr 0"
  using savings_percent_guarded[of "0.192 - 0.1632" "0.192"]
    savings_percent_guarded[of "0.0288" 0]
  by simp

section \<open>Claims about the aggregation\<close>

text \<open>
  Claim C1. In both scripts the best saving kept per category for one instance is never
  negative, the evaluation always returns, and no category total of the fleet ever
  decreases, whatever instances are processed from whatever totals; an instance whose
  entries in a category are all zero or negative leaves the total of that category as it
  was.
\<close>

theorem category_totals_never_decrease:
  "(\<exists>s best es. evaluate_alternatives env cp alts (self, Map.empty, []) = Inr (s, best, es) \<and>
      (\<forall>cat v. best cat = Some v \<longrightarrow> 0 \<le> v)) \<and>
   (\<exists>s a. analyze_reservations env fmt cm rs (self, acc) = Inr (s, a) \<and>
      (\<forall>c. total_potential_savings acc c \<le> total_potential_savings a c)) \<and>
   (\<exists>s a. analyze_instance env fmt cm inst (self, acc) = Inr (s, a) \<and>
      (\<forall>c. total_potential_savings acc c \<le> total_potential_savings a c) \<and>
      (\<forall>c iid es. report a = report acc @ [(iid, es)] \<and>
          (\<forall>(k, e) \<in> set es. k = c \<longrightarrow> savings_per_month e \<le> 0) \<longrightarrow>
          total_potential_savings a c = total_potential_savings acc c)) \<and>
   (\<exists>bg bn bes. evaluate_alternatives_basic cp balts (0, 0, []) = Inr (bg, bn, bes) \<and>
      0 \<le> bg \<and> 0 \<le> bn) \<and>
   (\<exists>a. main_reservations rs macc = Inr a \<and>
      total_graviton_savings macc \<le> total_graviton_savings a \<and>
      total_non_graviton_savings macc \<le> total_non_graviton_savings a) \<and>
   (\<exists>a. main_instance inst macc = Inr a \<and>
      total_graviton_savings macc \<le> total_graviton_savings a \<and>
      total_non_graviton_savings macc \<le> total_non_graviton_savings a \<and>
      (\<forall>iid es. recommendations a = recommendations macc @ [(iid, es)] \<longrightarrow>
          ((\<forall>(g, e) \<in> set es. g \<longrightarrow> savings_per_month e \<le> 0) \<longrightarrow>
             total_graviton_savings a = total_graviton_savings macc) \<and>
          ((\<forall>(g, e) \<in> set es. \<not> g \<longrightarrow> savings_per_month e \<le> 0) \<longrightarrow>
             total_non_graviton_savings a = total_non_graviton_savings macc)))"
proof (intro conjI)
  obtain r where "evaluate_alternatives env cp alts (self, Map.empty, []) = Inr r"
    using evaluate_alternatives_total by blast
  then obtain s best es where
    ev: "evaluate_alternatives env cp alts (self, Map.empty, []) = Inr (s, best, es)"
    by (cases r) auto
  have "nonneg_best best"
    using evaluate_alternatives_nonneg[OF ev nonneg_best_empty] .
  then have "\<forall>cat v. best cat = Some v \<longrightarrow> 0 \<le> v"
    by (auto simp: nonneg_best_def split: option.splits)
  with ev show "\<exists>s best es. evaluate_alternatives env cp alts (self, Map.empty, []) = Inr (s, best, es) \<and>
      (\<forall>cat v. best cat = Some v \<longrightarrow> 0 \<le> v)"
    by blast
next
  obtain r where "analyze_reservations env fmt cm rs (self, acc) = Inr r"
    using analyze_reservations_total by blast
  then obtain s a where run: "analyze_reservations env fmt cm rs (self, acc) = Inr (s, a)"
    by (cases r) auto
  with analyze_reservations_mono[OF run]
  show "\<exists>s a. analyze_reservations env fmt cm rs (self, acc) = Inr (s, a) \<and>
      (\<forall>c. total_potential_savings acc c \<le> total_potential_savings a c)"
    by blast
next
  obtain r where "analyze_instance env fmt cm inst (self, acc) = Inr r"
    using analyze_instance_total by blast
  then obtain s a where run: "analyze_instance env fmt cm inst (self, acc) = Inr (s, a)"
    by (cases r) auto
  have zero: "total_potential_savings a c = total_potential_savings acc c"
    if "report a = report acc @ [(iid, es)]"
      and "\<forall>(k, e) \<in> set es. k = c \<longrightarrow> savings_per_month e \<le> 0" for c iid es
  proof -
    from that(2) have "no_saving_in c es"
      by (auto simp: no_saving_in_def list_all_iff)
    with analyze_instance_zero[OF run that(1)] show ?thesis .
  qed
  with run analyze_instance_mono[OF run]
  show "\<exists>s a. analyze_instance env fmt cm inst (self, acc) = Inr (s, a) \<and>
      (\<forall>c. total_potential_savings acc c \<le> total_potential_savings a c) \<and>
      (\<forall>c iid es. report a = report acc @ [(iid, es)] \<and>
          (\<forall>(k, e) \<in> set es. k = c \<longrightarrow> savings_per_month e \<le> 0) \<longrightarrow>
          total_potential_savings a c = total_potential_savings acc c)"
    by blast
next
  obtain r where "evaluate_alternatives_basic cp balts (0, 0, []) = Inr r"
    using evaluate_alternatives_basic_total by blast
  then obtain bg bn bes where
    ev: "evaluate_alternatives_basic cp balts (0, 0, []) = Inr (bg, bn, bes)"
    by (cases r) auto
  from evaluate_alternatives_basic_inv[OF ev] have "0 \<le> bg \<and> 0 \<le> bn"
    by (simp add: no_saving_side_def)
  with ev show "\<exists>bg bn bes. evaluate_alternatives_basic cp balts (0, 0, []) = Inr (bg, bn, bes) \<and>
      0 \<le> bg \<and> 0 \<le> bn"
    by blast
next
  obtain a where run: "main_reservations rs macc = Inr a"
    using main_reservations_total by blast
  with main_reservations_mono[OF run]
  show "\<exists>a. main_reservations rs macc = Inr a \<and>
      total_graviton_savings macc \<le> total_graviton_savings a \<and>
      total_non_graviton_savings macc \<le> total_non_graviton_savings a"
    by blast
next
  obtain a where run: "main_instance inst macc = Inr a"
    using main_instance_total by blast
  have zero: "((\<forall>(g, e) \<in> set es. g \<longrightarrow> savings_per_month e \<le> 0) \<longrightarrow>
             total_graviton_savings a = total_graviton_savings macc) \<and>
          ((\<forall>(g, e) \<in> set es. \<not> g \<longrightarrow> savings_per_month e \<le> 0) \<longrightarrow>
             total_non_graviton_savings a = total_non_graviton_savings macc)"
    if "recommendations a = recommendations macc @ [(iid, es)]" for iid es
  proof -
    have t: "no_saving_side True es" if "\<forall>(g, e) \<in> set es. g \<longrightarrow> savings_per_month e \<le> 0"
      using that by (auto simp: no_saving_side_def list_all_iff)
    have f: "no_saving_side False es" if "\<forall>(g, e) \<in> set es. \<not> g \<longrightarrow> savings_per_month e \<le> 0"
      using that by (auto simp: no_saving_side_def list_all_iff)
    from main_instance_zero[OF run \<open>recommendations a = recommendations macc @ [(iid, es)]\<close>] t f
    show ?thesis by blast
  qed
  with run main_instance_mono[OF run]
  show "\<exists>a. main_instance inst macc = Inr a \<and>
      total_graviton_savings macc \<le> total_graviton_savings a \<and>
      total_non_graviton_savings macc \<le> total_non_graviton_savings a \<and>
      (\<forall>iid es. recommendations a = recommendations macc @ [(iid, es)] \<longrightarrow>
          ((\<forall>(g, e) \<in> set es. g \<longrightarrow> savings_per_month e \<le> 0) \<longrightarrow>
             total_graviton_savings a = total_graviton_savings macc) \<and>
          ((\<forall>(g, e) \<in> set es. \<not> g \<longrightarrow> savings_per_month e \<le> 0) \<longrightarrow>
             total_non_graviton_savings a = total_non_graviton_savings macc))"
    by blast
qed

theorem category_totals_never_decrease_witness:
  "(\<exists>s a. analyze_instance sample_services format_1f True running_m5_xlarge
             (fresh, initial_summary) = Inr (s, a) \<and>
      map (\<lambda>(i, es). (i, map (\<lambda>(k, e). (k, savings_per_month e)) es)) (report a) =
        [(''i-0001'', [(graviton, 21.024), (amd, 14.016), (intel, 0), (downsize, 70.08)])] \<and>
      total_potential_savings a graviton = 21.024 \<and>
      total_potential_savings a amd = 14.016 \<and>
      total_potential_savings a intel = 0 \<and>
      total_potential_savings a downsize = 70.08) \<and>
   (\<exists>a. main_instance running_m5_2xlarge initial_totals = Inr a \<and>
      map (\<lambda>(i, es). (i, map (\<lambda>(g, e). (g, savings_per_month e)) es)) (recommendations a) =
        [(''i-0002'', [(False, 28.032), (False, 0)])] \<and>
      total_graviton_savings a = 0 \<and>
      total_non_graviton_savings a = 28.032)"
proof -
  note at_sample = category_totals_never_decrease[where env = sample_services and self = fresh
      and fmt = format_1f and cm = True and acc = initial_summary and macc = initial_totals]
  from at_sample[where inst = running_m5_xlarge, THEN conjunct2, THEN conjunct2, THEN conjunct1]
  obtain s a where
    run: "analyze_instance sample_services format_1f True running_m5_xlarge
            (fresh, initial_summary) = Inr (s, a)"
    and zero: "\<forall>c iid es. report a = report initial_summary @ [(iid, es)] \<and>
          (\<forall>(k, e) \<in> set es. k = c \<longrightarrow> savings_per_month e \<le> 0) \<longrightarrow>
          total_potential_savings a c = total_potential_savings initial_summary c"
    by (elim exE conjE)
  note vals = sample_run[OF run]
  from vals
  have "\<exists>es. report a = [(''i-0001'', es)] \<and>
      map (\<lambda>(k, e). (k, savings_per_month e)) es =
        [(graviton, 21.024), (amd, 14.016), (intel, 0), (downsize, 70.08)]"
    by (auto simp: map_eq_Cons_conv)
  then obtain es where
    rep: "report a = [(''i-0001'', es)]"
    and ms: "map (\<lambda>(k, e). (k, savings_per_month e)) es =
        [(graviton, 21.024), (amd, 14.016), (intel, 0), (downsize, 70.08)]"
    by (elim exE conjE)
  have hyp: "\<forall>(k, e) \<in> set es. k = intel \<longrightarrow> savings_per_month e \<le> 0"
    using ms by (auto simp: map_eq_Cons_conv)
  have rep0: "report a = report initial_summary @ [(''i-0001'', es)]"
    by (simp add: rep initial_summary_def)
  from zero[rule_format, OF conjI[OF rep0 hyp]]
  have "total_potential_savings a intel = total_potential_savings initial_summary intel" .
  then have i0: "total_potential_savings a intel = 0"
    by (simp add: initial_summary_def)
  from at_sample[where inst = running_m5_2xlarge, THEN conjunct2, THEN conjunct2,
      THEN conjunct2, THEN conjunct2, THEN conjunct2]
  obtain b where
    brun: "main_instance running_m5_2xlarge initial_totals = Inr b"
    and bzero: "\<forall>iid es. recommendations b = recommendations initial_totals @ [(iid, es)] \<longrightarrow>
          ((\<forall>(g, e) \<in> set es. g \<longrightarrow> savings_per_month e \<le> 0) \<longrightarrow>
             total_graviton_savings b = total_graviton_savings initial_totals) \<and>
          ((\<forall>(g, e) \<in> set es. \<not> g \<longrightarrow> savings_per_month e \<le> 0) \<longrightarrow>
             total_non_graviton_savings b = total_non_graviton_savings initial_totals)"
    by (elim exE conjE)
  note bvals = sample_basic_run[OF brun]
  from bvals
  have "\<exists>bes. recommendations b = [(''i-0002'', bes)] \<and>
      map (\<lambda>(g, e). (g, savings_per_month e)) bes = [(False, 28.032), (False, 0)]"
    by (auto simp: map_eq_Cons_conv)
  then obtain bes where
    brep: "recommendations b = [(''i-0002'', bes)]"
    and bms: "map (\<lambda>(g, e). (g, savings_per_month e)) bes = [(False, 28.032), (False, 0)]"
    by (elim exE conjE)
  have bhyp: "\<forall>(g, e) \<in> set bes. g \<longrightarrow> savings_per_month e \<le> 0"
    using bms by (auto simp: map_eq_Cons_conv)
  have brep0: "recommendations b = recommendations initial_totals @ [(''i-0002'', bes)]"
    by (simp add: brep initial_totals_def)
  from bzero[rule_format, OF brep0, THEN conjunct1, THEN mp, OF bhyp]
  have "total_graviton_savings b = total_graviton_savings initial_totals" .
  then have g0: "total_graviton_savings b = 0"
    by (simp add: initial_totals_def)
  have enhanced: "\<exists>s a. analyze_instance sample_services format_1f True running_m5_xlarge
             (fresh, initial_summary) = Inr (s, a) \<and>
      map (\<lambda>(i, es). (i, map (\<lambda>(k, e). (k, savings_per_month e)) es)) (report a) =
        [(''i-0001'', [(graviton, 21.024), (amd, 14.016), (intel, 0), (downsize, 70.08)])] \<and>
      total_potential_savings a graviton = 21.024 \<and>
      total_potential_savings a amd = 14.016 \<and>
      total_potential_savings a intel = 0 \<and>
      total_potential_savings a downsize = 70.08"
    by (rule exI[of _ s], rule exI[of _ a]) (simp only: run vals i0 simp_thms)
  have basic: "\<exists>a. main_instance running_m5_2xlarge initial_totals = Inr a \<and>
      map (\<lambda>(i, es). (i, map (\<lambda>(g, e). (g, savings_per_month e)) es)) (recommendations a) =
        [(''i-0002'', [(False, 28.032), (False, 0)])] \<and>
      total_graviton_savings a = 0 \<and>
      total_non_graviton_savings a = 28.032"
    by (rule exI[of _ b]) (simp only: brun bvals g0 simp_thms)
  from enhanced basic show ?thesis by (rule conjI)
qed

text \<open>
  Claim C4, at a terminated instance of type \<open>t3.large\<close>. The enhanced script skips it
  and leaves every counter as it was. The basic script never reads the state: it counts
  the instance, adds its monthly cost and adds its savings to both totals.
\<close>

theorem basic_script_counts_terminated_instance:
  "StateName terminated_t3_large = ''terminated'' \<and>
   analyze_instance env fmt cm terminated_t3_large (self, acc) = Inr (self, acc) \<and>
   (\<exists>a. main_instance terminated_t3_large initial_totals = Inr a \<and>
      instances_analyzed initial_totals = 0 \<and> instances_analyzed a = 1 \<and>
      total_current_cost a = 60.736 \<and>
      total_graviton_savings a = 11.68 \<and>
      total_non_graviton_savings a = 5.84)"
proof -
  have t: "StateName terminated_t3_large = ''terminated''"
    by (simp add: terminated_t3_large_def)
  obtain a where run: "main_instance terminated_t3_large initial_totals = Inr a"
    using main_instance_total by blast
  then have "instances_analyzed a = 1 \<and> total_current_cost a = 60.736 \<and>
      total_graviton_savings a = 11.68 \<and> total_non_graviton_savings a = 5.84"
    by (auto simp: basic_run_defs terminated_t3_large_def)
  with run have "\<exists>a. main_instance terminated_t3_large initial_totals = Inr a \<and>
      instances_analyzed initial_totals = 0 \<and> instances_analyzed a = 1 \<and>
      total_current_cost a = 60.736 \<and>
      total_graviton_savings a = 11.68 \<and>
      total_non_graviton_savings a = 5.84"
    by (intro exI[of _ a]) (simp add: initial_totals_def)
  with t analyze_instance_terminated[OF t] show ?thesis by simp
qed

end
